theory Spec2Isabelle
  imports Main
begin

section \<open>JavaScript values\<close>

text \<open>
  The chaincode is JavaScript, so the values it stores and computes with are dynamically
  typed. \<open>jsval\<close> covers the primitives that reach the ledger records: \<open>undefined\<close>
  (also the value of an absent property), \<open>null\<close>, numbers, \<open>NaN\<close> and strings.
  Numbers are modelled as mathematical integers: balances and recharge amounts are integers
  and the model does not cover rounding of doubles beyond 2^53, fractions or infinities.
  \<open>Builtin t\<close> is a function or object of the runtime that a lookup through
  \<open>Object.prototype\<close> returns; \<open>t\<close> is the text its conversion to a primitive gives.
  Strings are byte strings (the UTF-8 form that \<open>Buffer.from\<close> writes).
\<close>

datatype jsval = Undefined | Null | Num int | NaN | Str string | Builtin string

text \<open>An object is its own enumerable properties in insertion order.\<close>

type_synonym jsobj = "(string \<times> jsval) list"

text \<open>\<open>o.k\<close>: the own property, \<open>undefined\<close> when absent.\<close>

fun obj_get :: "jsobj \<Rightarrow> string \<Rightarrow> jsval" where
  "obj_get [] k = Undefined"
| "obj_get ((k', v) # ps) k = (if k' = k then v else obj_get ps k)"

text \<open>\<open>o.k = v\<close>: an existing property keeps its position, a new one is appended.\<close>

fun obj_set :: "jsobj \<Rightarrow> string \<Rightarrow> jsval \<Rightarrow> jsobj" where
  "obj_set [] k v = [(k, v)]"
| "obj_set ((k', v') # ps) k v = (if k' = k then (k, v) # ps else (k', v') # obj_set ps k v)"

text \<open>\<open>Object.assign(target, source)\<close> sets every own property of the source, in order.\<close>

definition Object_assign :: "jsobj \<Rightarrow> jsobj \<Rightarrow> jsobj" where
  "Object_assign target source = foldl (\<lambda>t (k, v). obj_set t k v) target source"

subsection \<open>Number to string and back\<close>

definition digit_char :: "nat \<Rightarrow> char" where
  "digit_char d = char_of (48 + d)"

fun show_nat :: "nat \<Rightarrow> string" where
  "show_nat n = (if n < 10 then [digit_char n] else show_nat (n div 10) @ [digit_char (n mod 10)])"

declare show_nat.simps [simp del]

definition show_int :: "int \<Rightarrow> string" where
  "show_int i = (if i < 0 then CHR ''-'' # show_nat (nat (- i)) else show_nat (nat i))"

definition is_digit :: "char \<Rightarrow> bool" where
  "is_digit c = (48 \<le> (of_char c :: nat) \<and> (of_char c :: nat) \<le> 57)"

definition digit_val :: "char \<Rightarrow> nat" where
  "digit_val c = of_char c - 48"

definition read_nat :: "string \<Rightarrow> nat" where
  "read_nat ds = foldl (\<lambda>a c. 10 * a + digit_val c) 0 ds"

subsection \<open>Conversions and operators\<close>

text \<open>\<open>ToPrimitive\<close>: a runtime function or object becomes its text.\<close>

fun to_primitive :: "jsval \<Rightarrow> jsval" where
  "to_primitive (Builtin t) = Str t"
| "to_primitive v = v"

fun to_string :: "jsval \<Rightarrow> string" where
  "to_string Undefined = ''undefined''"
| "to_string Null = ''null''"
| "to_string (Num n) = show_int n"
| "to_string NaN = ''NaN''"
| "to_string (Str s) = s"
| "to_string (Builtin t) = t"

definition is_space :: "char \<Rightarrow> bool" where
  "is_space c = (c \<in> {CHR 0x09, CHR 0x0A, CHR 0x0B, CHR 0x0C, CHR 0x0D, CHR 0x20})"

definition trim :: "string \<Rightarrow> string" where
  "trim s = rev (dropWhile is_space (rev (dropWhile is_space s)))"

text \<open>
  \<open>StringToNumber\<close> on the integer literals; the empty string is 0. Texts that denote a
  fraction, an exponent, a hexadecimal number or an infinity are outside the integer model
  and read as \<open>NaN\<close> here.
\<close>

definition string_to_number :: "string \<Rightarrow> jsval" where
  "string_to_number s =
     (let t = trim s;
          signed = (t \<noteq> [] \<and> (hd t = CHR ''-'' \<or> hd t = CHR ''+''));
          ds = (if signed then tl t else t)
      in if t = [] then Num 0
         else if ds \<noteq> [] \<and> list_all is_digit ds
           then Num (if hd t = CHR ''-'' then - int (read_nat ds) else int (read_nat ds))
         else NaN)"

fun to_number :: "jsval \<Rightarrow> jsval" where
  "to_number Undefined = NaN"
| "to_number Null = Num 0"
| "to_number (Num n) = Num n"
| "to_number NaN = NaN"
| "to_number (Str s) = string_to_number s"
| "to_number (Builtin t) = string_to_number t"

fun is_Str :: "jsval \<Rightarrow> bool" where
  "is_Str (Str s) = True"
| "is_Str v = False"

text \<open>\<open>a + b\<close>: concatenation as soon as one operand is a string, else numeric addition.\<close>

definition js_add :: "jsval \<Rightarrow> jsval \<Rightarrow> jsval" where
  "js_add a b =
     (let pa = to_primitive a; pb = to_primitive b
      in if is_Str pa \<or> is_Str pb then Str (to_string pa @ to_string pb)
         else (case (to_number pa, to_number pb) of
                 (Num x, Num y) \<Rightarrow> Num (x + y)
               | _ \<Rightarrow> NaN))"

text \<open>\<open>a - b\<close>: always numeric.\<close>

definition js_sub :: "jsval \<Rightarrow> jsval \<Rightarrow> jsval" where
  "js_sub a b =
     (case (to_number a, to_number b) of
        (Num x, Num y) \<Rightarrow> Num (x - y)
      | _ \<Rightarrow> NaN)"

fun str_less :: "string \<Rightarrow> string \<Rightarrow> bool" where
  "str_less [] [] = False"
| "str_less [] (y # ys) = True"
| "str_less (x # xs) [] = False"
| "str_less (x # xs) (y # ys) =
     (if x = y then str_less xs ys else (of_char x :: nat) < of_char y)"

text \<open>
  \<open>a >= b\<close>: two strings compare by code units (here: bytes, the same order on
  ASCII text), anything else numerically, and a comparison with \<open>NaN\<close> is false.
\<close>

definition js_ge :: "jsval \<Rightarrow> jsval \<Rightarrow> bool" where
  "js_ge a b =
     (case (to_primitive a, to_primitive b) of
        (Str s, Str t) \<Rightarrow> \<not> str_less s t
      | (pa, pb) \<Rightarrow>
          (case (to_number pa, to_number pb) of
             (Num x, Num y) \<Rightarrow> y \<le> x
           | _ \<Rightarrow> False))"

text \<open>\<open>a === b\<close>: same type and same value; \<open>NaN\<close> equals nothing.\<close>

definition js_strict_eq :: "jsval \<Rightarrow> jsval \<Rightarrow> bool" where
  "js_strict_eq a b = (a = b \<and> a \<noteq> NaN)"

text \<open>\<open>a == b\<close> on primitives: \<open>null\<close> and \<open>undefined\<close> equal each other only, a number
  and a string compare as numbers.\<close>

definition js_loose_eq :: "jsval \<Rightarrow> jsval \<Rightarrow> bool" where
  "js_loose_eq a b =
     (let pa = to_primitive a; pb = to_primitive b
      in if pa \<in> {Undefined, Null} \<or> pb \<in> {Undefined, Null}
           then pa \<in> {Undefined, Null} \<and> pb \<in> {Undefined, Null}
         else if is_Str pa \<and> is_Str pb then pa = pb
         else (case (to_number pa, to_number pb) of
                 (Num x, Num y) \<Rightarrow> x = y
               | _ \<Rightarrow> False))"

fun truthy :: "jsval \<Rightarrow> bool" where
  "truthy Undefined = False"
| "truthy Null = False"
| "truthy NaN = False"
| "truthy (Num n) = (n \<noteq> 0)"
| "truthy (Str s) = (s \<noteq> [])"
| "truthy (Builtin t) = True"

text \<open>\<open>parts.join(sep)\<close>: \<open>undefined\<close> and \<open>null\<close> elements give the empty string.\<close>

fun join_part :: "jsval \<Rightarrow> string" where
  "join_part Undefined = []"
| "join_part Null = []"
| "join_part v = to_string v"

fun Array_join :: "jsval list \<Rightarrow> string \<Rightarrow> string" where
  "Array_join [] sep = []"
| "Array_join [p] sep = join_part p"
| "Array_join (p # ps) sep = join_part p @ sep @ Array_join ps sep"

section \<open>JSON text\<close>

text \<open>
  \<open>JSON.stringify\<close> and \<open>JSON.parse\<close> on the records of this program: objects whose
  property values are strings, integers or \<open>null\<close>. \<open>JSON_stringify\<close> writes what the
  runtime writes for such an object (no white space, a property whose value is
  \<open>undefined\<close> or a function left out, \<open>NaN\<close> written as \<open>null\<close>).
  \<open>JSON_parse\<close> reads that compact form; \<open>None\<close> is the \<open>SyntaxError\<close> of the
  runtime. Nested values, booleans, fractions and white space between tokens are outside
  the fragment and are not accepted.
\<close>

definition quote :: char where
  "quote = CHR 0x22"

definition backslash :: char where
  "backslash = CHR 0x5C"

definition hex_char :: "nat \<Rightarrow> char" where
  "hex_char d = (if d < 10 then char_of (48 + d) else char_of (87 + d))"

definition hex_val :: "char \<Rightarrow> nat option" where
  "hex_val c = (let n = (of_char c :: nat) in
     if 48 \<le> n \<and> n \<le> 57 then Some (n - 48)
     else if 97 \<le> n \<and> n \<le> 102 then Some (n - 87)
     else if 65 \<le> n \<and> n \<le> 70 then Some (n - 55)
     else None)"

definition quote_char :: "char \<Rightarrow> string" where
  "quote_char c =
     (if c = quote then [backslash, quote]
      else if c = backslash then [backslash, backslash]
      else if c = CHR 0x08 then [backslash, CHR ''b'']
      else if c = CHR 0x0C then [backslash, CHR ''f'']
      else if c = CHR 0x0A then [backslash, CHR ''n'']
      else if c = CHR 0x0D then [backslash, CHR ''r'']
      else if c = CHR 0x09 then [backslash, CHR ''t'']
      else if (of_char c :: nat) < 32
        then [backslash, CHR ''u'', CHR ''0'', CHR ''0'',
              hex_char (of_char c div 16), hex_char (of_char c mod 16)]
      else [c])"

definition quote_string :: "string \<Rightarrow> string" where
  "quote_string s = quote # concat (map quote_char s) @ [quote]"

definition unescape :: "char \<Rightarrow> char option" where
  "unescape c =
     (if c = quote then Some quote
      else if c = backslash then Some backslash
      else if c = CHR ''/'' then Some (CHR ''/'')
      else if c = CHR ''b'' then Some (CHR 0x08)
      else if c = CHR ''f'' then Some (CHR 0x0C)
      else if c = CHR ''n'' then Some (CHR 0x0A)
      else if c = CHR ''r'' then Some (CHR 0x0D)
      else if c = CHR ''t'' then Some (CHR 0x09)
      else None)"

definition unicode_escape :: "char \<Rightarrow> char \<Rightarrow> char \<Rightarrow> char \<Rightarrow> char option" where
  "unicode_escape a b c d =
     (case (hex_val a, hex_val b, hex_val c, hex_val d) of
        (Some 0, Some 0, Some h, Some l) \<Rightarrow> if h < 8 then Some (char_of (16 * h + l)) else None
      | _ \<Rightarrow> None)"

fun cons_result :: "char \<Rightarrow> (string \<times> string) option \<Rightarrow> (string \<times> string) option" where
  "cons_result c None = None"
| "cons_result c (Some (s, r)) = Some (c # s, r)"

text \<open>The characters of a string literal after its opening quote, and the text after it.\<close>

fun parse_chars :: "string \<Rightarrow> (string \<times> string) option" where
  "parse_chars [] = None"
| "parse_chars (c # cs) =
     (if c = quote then Some ([], cs)
      else if c = backslash then
        (case cs of
           [] \<Rightarrow> None
         | e # es \<Rightarrow>
             if e = CHR ''u'' then
               (case es of
                  a # b # h # l # rest \<Rightarrow>
                    (case unicode_escape a b h l of
                       None \<Rightarrow> None
                     | Some x \<Rightarrow> cons_result x (parse_chars rest))
                | _ \<Rightarrow> None)
             else
               (case unescape e of
                  None \<Rightarrow> None
                | Some x \<Rightarrow> cons_result x (parse_chars es)))
      else if (of_char c :: nat) < 32 then None
      else cons_result c (parse_chars cs))"

definition parse_number :: "string \<Rightarrow> (int \<times> string) option" where
  "parse_number s =
     (let neg = (s \<noteq> [] \<and> hd s = CHR ''-'');
          body = (if neg then tl s else s);
          ds = takeWhile is_digit body
      in if ds = [] \<or> (length ds > 1 \<and> hd ds = CHR ''0'') then None
         else Some (if neg then - int (read_nat ds) else int (read_nat ds), dropWhile is_digit body))"

definition parse_value :: "string \<Rightarrow> (jsval \<times> string) option" where
  "parse_value s =
     (case s of
        [] \<Rightarrow> None
      | c # cs \<Rightarrow>
          if c = quote then map_option (\<lambda>(x, r). (Str x, r)) (parse_chars cs)
          else if c = CHR ''n'' then (if take 4 s = ''null'' then Some (Null, drop 4 s) else None)
          else map_option (\<lambda>(n, r). (Num n, r)) (parse_number s))"

text \<open>
  The members of an object, up to the closing brace that ends the text. The first argument
  bounds the number of members read; \<open>JSON_parse\<close> passes the length of the text, which
  no parse exhausts (\<open>parse_members_fuel\<close>). A repeated name overwrites the earlier
  value.
\<close>

fun parse_members :: "nat \<Rightarrow> string \<Rightarrow> jsobj \<Rightarrow> jsobj option" where
  "parse_members 0 s acc = None"
| "parse_members (Suc n) s acc =
     (case s of
        [] \<Rightarrow> None
      | q # s1 \<Rightarrow>
          if q \<noteq> quote then None
          else (case parse_chars s1 of
                  None \<Rightarrow> None
                | Some (k, s2) \<Rightarrow>
                    (case s2 of
                       [] \<Rightarrow> None
                     | c # s3 \<Rightarrow>
                         if c \<noteq> CHR '':'' then None
                         else (case parse_value s3 of
                                 None \<Rightarrow> None
                               | Some (v, s4) \<Rightarrow>
                                   if s4 = ''}'' then Some (obj_set acc k v)
                                   else (case s4 of
                                           [] \<Rightarrow> None
                                         | d # s5 \<Rightarrow>
                                             if d = CHR '','' then parse_members n s5 (obj_set acc k v)
                                             else None)))))"

definition JSON_parse :: "string \<Rightarrow> jsobj option" where
  "JSON_parse s =
     (case s of
        [] \<Rightarrow> None
      | c # r \<Rightarrow>
          if c \<noteq> CHR ''{'' then None
          else if r = ''}'' then Some []
          else parse_members (length r) r [])"

fun json_value :: "jsval \<Rightarrow> string option" where
  "json_value Undefined = None"
| "json_value (Builtin f) = None"
| "json_value Null = Some ''null''"
| "json_value NaN = Some ''null''"
| "json_value (Num n) = Some (show_int n)"
| "json_value (Str s) = Some (quote_string s)"

fun json_members :: "jsobj \<Rightarrow> string list" where
  "json_members [] = []"
| "json_members ((k, v) # ps) =
     (case json_value v of
        None \<Rightarrow> json_members ps
      | Some t \<Rightarrow> (quote_string k @ CHR '':'' # t) # json_members ps)"

fun join_members :: "string list \<Rightarrow> string" where
  "join_members [] = []"
| "join_members [m] = m"
| "join_members (m # ms) = m @ CHR '','' # join_members ms"

definition JSON_stringify :: "jsobj \<Rightarrow> string" where
  "JSON_stringify obj = CHR ''{'' # join_members (json_members obj) @ ''}''"

text \<open>What an object looks like after it went through \<open>JSON_stringify\<close> and \<open>JSON_parse\<close>.\<close>

fun json_norm_value :: "jsval \<Rightarrow> jsval" where
  "json_norm_value NaN = Null"
| "json_norm_value (Builtin f) = Undefined"
| "json_norm_value v = v"

fun json_norm :: "jsobj \<Rightarrow> jsobj" where
  "json_norm [] = []"
| "json_norm ((k, v) # ps) =
     (case v of
        Undefined \<Rightarrow> json_norm ps
      | Builtin f \<Rightarrow> json_norm ps
      | NaN \<Rightarrow> (k, Null) # json_norm ps
      | _ \<Rightarrow> (k, v) # json_norm ps)"

fun plain_value :: "jsval \<Rightarrow> bool" where
  "plain_value Null = True"
| "plain_value (Num n) = True"
| "plain_value (Str s) = True"
| "plain_value v = False"

definition plain :: "jsobj \<Rightarrow> bool" where
  "plain obj = list_all (\<lambda>(k, v). plain_value v) obj"

definition ends_number :: "string \<Rightarrow> bool" where
  "ends_number rest = (rest = [] \<or> \<not> is_digit (hd rest))"

definition ends_value :: "string \<Rightarrow> bool" where
  "ends_value rest = (rest \<noteq> [] \<and> (hd rest = CHR '','' \<or> hd rest = CHR ''}''))"

section \<open>The ledger\<close>

text \<open>
  The world state maps keys to byte strings. \<open>getState\<close> of a key that was never written
  is the empty buffer. The contract functions below return the state after the
  \<open>putState\<close> calls they executed together with their outcome, so that a throw after a
  write would be visible as an error with a changed state.
\<close>

type_synonym ledger = "string \<rightharpoonup> string"

definition getState :: "ledger \<Rightarrow> string \<Rightarrow> string" where
  "getState L k = (case L k of None \<Rightarrow> [] | Some b \<Rightarrow> b)"

definition putState :: "ledger \<Rightarrow> string \<Rightarrow> string \<Rightarrow> ledger" where
  "putState L k v = L(k \<mapsto> v)"

text \<open>
  The stub's composite key: the object type and every attribute, each closed by the
  character U+0000, after a leading U+0000. The stub is an external collaborator; its
  refusal of an empty attribute is not modelled.
\<close>

definition createCompositeKey :: "string \<Rightarrow> jsval list \<Rightarrow> string" where
  "createCompositeKey objectType attributes =
     CHR 0x00 # objectType @ CHR 0x00 # concat (map (\<lambda>a. to_string a @ [CHR 0x00]) attributes)"

text \<open>
  The transaction context: the organisation of the calling identity
  (\<open>ctx.clientIdentity.getMSPID()\<close>) and the clock, as the ISO text that \<open>new Date()\<close>
  serialises to.
\<close>

record ctx =
  clientMSPID :: string
  clock :: string

definition getMSPID :: "ctx \<Rightarrow> string" where
  "getMSPID c = clientMSPID c"

datatype error = Error string | TypeError | SyntaxError

text \<open>\<open>promise.catch(err => console.log(err))\<close>: a rejection becomes \<open>undefined\<close>.\<close>

definition catch_log :: "error + 'a \<Rightarrow> 'a option" where
  "catch_log r = (case r of Inl err \<Rightarrow> None | Inr x \<Rightarrow> Some x)"

section \<open>Models: User and Property\<close>

definition User_makeKey :: "jsval list \<Rightarrow> string" where
  "User_makeKey keyParts = Array_join keyParts '':''"

definition User_new :: "jsobj \<Rightarrow> jsobj" where
  "User_new userObject =
     Object_assign
       (obj_set [] ''key'' (Str (User_makeKey [obj_get userObject ''name'', obj_get userObject ''aadhar''])))
       userObject"

definition User_fromBuffer :: "string \<Rightarrow> error + jsobj" where
  "User_fromBuffer buffer =
     (case JSON_parse buffer of None \<Rightarrow> Inl SyntaxError | Some json \<Rightarrow> Inr (User_new json))"

definition User_toBuffer :: "jsobj \<Rightarrow> string" where
  "User_toBuffer this = JSON_stringify this"

definition User_getKey :: "jsobj \<Rightarrow> jsval" where
  "User_getKey this = obj_get this ''key''"

definition User_createInstance :: "jsobj \<Rightarrow> jsobj" where
  "User_createInstance userObject = User_new userObject"

definition Property_makeKey :: "jsval list \<Rightarrow> string" where
  "Property_makeKey keyParts = Array_join keyParts '':''"

definition Property_new :: "jsobj \<Rightarrow> jsobj" where
  "Property_new propertyObject =
     Object_assign
       (obj_set [] ''key'' (Str (Property_makeKey [obj_get propertyObject ''propertyId''])))
       propertyObject"

definition Property_fromBuffer :: "string \<Rightarrow> error + jsobj" where
  "Property_fromBuffer buffer =
     (case JSON_parse buffer of None \<Rightarrow> Inl SyntaxError | Some json \<Rightarrow> Inr (Property_new json))"

definition Property_toBuffer :: "jsobj \<Rightarrow> string" where
  "Property_toBuffer this = JSON_stringify this"

definition Property_getKey :: "jsobj \<Rightarrow> jsval" where
  "Property_getKey this = obj_get this ''key''"

definition Property_createInstance :: "jsobj \<Rightarrow> jsobj" where
  "Property_createInstance propertyObject = Property_new propertyObject"

section \<open>Lists: PropertyList and UserList\<close>

definition PropertyList_name :: string where
  "PropertyList_name = ''org.property-registration-network.regnet.property.''"

definition PropertyList_getProperty :: "ledger \<Rightarrow> jsval \<Rightarrow> error + jsobj" where
  "PropertyList_getProperty L propertyKey =
     (let propertyCompositeKey = createCompositeKey PropertyList_name [propertyKey];
          propertyBuffer = getState L propertyCompositeKey
      in Property_fromBuffer propertyBuffer)"

definition PropertyList_addProperty :: "ledger \<Rightarrow> jsobj \<Rightarrow> ledger" where
  "PropertyList_addProperty L propertyObject =
     (let propertyCompositeKey = createCompositeKey PropertyList_name [Property_getKey propertyObject];
          propertyBuffer = Property_toBuffer propertyObject
      in putState L propertyCompositeKey propertyBuffer)"

definition PropertyList_updateProperty :: "ledger \<Rightarrow> jsobj \<Rightarrow> ledger" where
  "PropertyList_updateProperty L propertyObject =
     (let propertyCompositeKey = createCompositeKey PropertyList_name [Property_getKey propertyObject];
          propertyBuffer = Property_toBuffer propertyObject
      in putState L propertyCompositeKey propertyBuffer)"

text \<open>
  The file \<open>lib/lists/userlist.js\<close> (class \<open>UserList\<close>, used by both contracts through
  \<open>ctx.userList\<close>) is not among the sources. Section 4.2 of the spec describes one store
  per entity type with its own namespace prefix, \<open>get\<close> by composite key returning the
  typed entity, \<open>put\<close> and \<open>update\<close> both writing the encoded entity under its own key,
  and no check of any kind in the store. The four definitions follow that description in
  the shape of the sibling \<open>PropertyList\<close>.
\<close>

text \<open>
  Modelled from the spec: the namespace prefix of the user store, missing with
  \<open>userlist.js\<close>. It is the name under which both contracts read and write user records
  when they call the stub directly.
\<close>

definition UserList_name :: string where
  "UserList_name = ''org.property-registration-network.regnet.user.''"

text \<open>
  Modelled from the spec: \<open>UserList.getUser\<close>, missing with \<open>userlist.js\<close>;
  \<open>get(key) -> Entity | NotFound\<close> of section 4.2, where a buffer that does not decode
  is the rejection that the callers catch.
\<close>

definition UserList_getUser :: "ledger \<Rightarrow> jsval \<Rightarrow> error + jsobj" where
  "UserList_getUser L userKey =
     (let userCompositeKey = createCompositeKey UserList_name [userKey];
          userBuffer = getState L userCompositeKey
      in User_fromBuffer userBuffer)"

text \<open>
  Modelled from the spec: \<open>UserList.addUser\<close>, missing with \<open>userlist.js\<close>;
  \<open>put(entity)\<close> of section 4.2, create or overwrite under the entity's own key.
\<close>

definition UserList_addUser :: "ledger \<Rightarrow> jsobj \<Rightarrow> ledger" where
  "UserList_addUser L userObject =
     (let userCompositeKey = createCompositeKey UserList_name [User_getKey userObject];
          userBuffer = User_toBuffer userObject
      in putState L userCompositeKey userBuffer)"

text \<open>
  Modelled from the spec: \<open>UserList.updateUser\<close>, missing with \<open>userlist.js\<close>;
  \<open>update(entity)\<close> of section 4.2, the same as \<open>put\<close> at this layer.
\<close>

definition UserList_updateUser :: "ledger \<Rightarrow> jsobj \<Rightarrow> ledger" where
  "UserList_updateUser L userObject =
     (let userCompositeKey = createCompositeKey UserList_name [User_getKey userObject];
          userBuffer = User_toBuffer userObject
      in putState L userCompositeKey userBuffer)"

section \<open>UserContract\<close>

definition VALID_TRANSACTIONS :: jsobj where
  "VALID_TRANSACTIONS = [(''upg100'', Num 100), (''upg500'', Num 500), (''upg1000'', Num 1000)]"

text \<open>
  \<open>VALID_TRANSACTIONS\<close> is an object literal, so \<open>VALID_TRANSACTIONS[transactionID]\<close>
  looks a name that is not an own property up in \<open>Object.prototype\<close>.
\<close>

definition native :: "string \<Rightarrow> jsval" where
  "native f = Builtin (''function '' @ f @ ''() { [native code] }'')"

definition Object_prototype :: jsobj where
  "Object_prototype =
     [(''constructor'', native ''Object''),
      (''__defineGetter__'', native ''__defineGetter__''),
      (''__defineSetter__'', native ''__defineSetter__''),
      (''hasOwnProperty'', native ''hasOwnProperty''),
      (''__lookupGetter__'', native ''__lookupGetter__''),
      (''__lookupSetter__'', native ''__lookupSetter__''),
      (''isPrototypeOf'', native ''isPrototypeOf''),
      (''propertyIsEnumerable'', native ''propertyIsEnumerable''),
      (''toString'', native ''toString''),
      (''valueOf'', native ''valueOf''),
      (''__proto__'', Builtin ''[object Object]''),
      (''toLocaleString'', native ''toLocaleString'')]"

definition literal_get :: "jsobj \<Rightarrow> string \<Rightarrow> jsval" where
  "literal_get obj k = (if k \<in> set (map fst obj) then obj_get obj k else obj_get Object_prototype k)"

definition PROPERTY_STATUS_REGISTERED :: string where
  "PROPERTY_STATUS_REGISTERED = ''registered''"

definition PROPERTY_STATUS_ON_SALE :: string where
  "PROPERTY_STATUS_ON_SALE = ''onSale''"

text \<open>The name under which both contracts read and write user records directly.\<close>

definition user_namespace :: string where
  "user_namespace = ''org.property-registration-network.regnet.user.''"

definition property_namespace :: string where
  "property_namespace = ''org.property-registration-network.regnet.property.''"

definition requestNewUser ::
  "ctx \<Rightarrow> ledger \<Rightarrow> string \<Rightarrow> string \<Rightarrow> string \<Rightarrow> string \<Rightarrow> ledger \<times> (error + jsobj)" where
  "requestNewUser c L name email phone aadhar =
     (if getMSPID c \<noteq> ''usersMSP''
        then (L, Inl (Error ''Only users should be allowed to raise a new user request''))
      else
        let userKey = User_makeKey [Str name, Str aadhar];
            userCompositeKey = createCompositeKey user_namespace [Str userKey];
            userBuffer = getState L userCompositeKey
        in (case JSON_parse userBuffer of
              Some existingUser \<Rightarrow>
                if js_ge (obj_get existingUser ''upgradCoins'') (Num 0)
                  then (L, Inl (Error (''User with name '' @ name @ '' and aadhar '' @ aadhar
                                         @ '' already exists'')))
                else (L, Inl (Error (''User Registration Request for name '' @ name
                                       @ '' and aadhar '' @ aadhar @ ''is already exists'')))
            | None \<Rightarrow>
                let userObj = [(''name'', Str name), (''email'', Str email), (''phone'', Str phone),
                               (''aadhar'', Str aadhar), (''createdAt'', Str (clock c))]
                in (putState L userCompositeKey (JSON_stringify userObj), Inr userObj)))"

definition rechargeAccount ::
  "ctx \<Rightarrow> ledger \<Rightarrow> string \<Rightarrow> string \<Rightarrow> string \<Rightarrow> ledger \<times> (error + unit)" where
  "rechargeAccount c L name aadhar transactionID =
     (if getMSPID c \<noteq> ''usersMSP''
        then (L, Inl (Error ''Only users should be allowed to recharge accounts''))
      else if \<not> truthy (literal_get VALID_TRANSACTIONS transactionID)
        then (L, Inl (Error ''Invalid Bank Transaction ID''))
      else
        let upgradCoins = literal_get VALID_TRANSACTIONS transactionID;
            userKey = User_makeKey [Str name, Str aadhar]
        in (case catch_log (UserList_getUser L (Str userKey)) of
              None \<Rightarrow> (L, Inl (Error (''There is no user with name '' @ name @ '' and aadhar ''
                                        @ aadhar @ '' exists'')))
            | Some user \<Rightarrow>
                let user1 = obj_set user ''upgradCoins'' (js_add (obj_get user ''upgradCoins'') upgradCoins)
                in (UserList_updateUser L user1, Inr ())))"

definition viewUser :: "ctx \<Rightarrow> ledger \<Rightarrow> string \<Rightarrow> string \<Rightarrow> ledger \<times> (error + jsobj)" where
  "viewUser c L name aadhar =
     (let userKey = User_makeKey [Str name, Str aadhar];
          userCompositeKey = createCompositeKey user_namespace [Str userKey];
          userBuffer = getState L userCompositeKey
      in (case JSON_parse userBuffer of
            None \<Rightarrow> (L, Inl (Error (''There is no user with name '' @ name @ '' and aadhar ''
                                      @ aadhar @ '' exists'')))
          | Some userObj \<Rightarrow> (L, Inr userObj)))"

definition propertyRegistrationRequest ::
  "ctx \<Rightarrow> ledger \<Rightarrow> string \<Rightarrow> string \<Rightarrow> string \<Rightarrow> jsval \<Rightarrow> ledger \<times> (error + jsobj)" where
  "propertyRegistrationRequest c L name aadhar propertyId price =
     (if getMSPID c \<noteq> ''usersMSP''
        then (L, Inl (Error ''Only users should be used to raise property registration request''))
      else
        let userKey = User_makeKey [Str name, Str aadhar];
            propertyKey = Property_makeKey [Str propertyId];
            propertyCompositeKey = createCompositeKey property_namespace [Str propertyKey];
            propertyBuffer = getState L propertyCompositeKey
        in (case JSON_parse propertyBuffer of
              Some property \<Rightarrow>
                if js_loose_eq (obj_get property ''status'') (Str PROPERTY_STATUS_REGISTERED)
                  then (L, Inl (Error (''Property with propertyId '' @ propertyId
                                         @ ''is already exists'')))
                else (L, Inl (Error (''Property Registration request for propertyId '' @ propertyId
                                       @ ''is already exists'')))
            | None \<Rightarrow>
                (case catch_log (UserList_getUser L (Str userKey)) of
                   None \<Rightarrow> (L, Inl (Error (''There is no approved user with name '' @ name
                                             @ '' and aadhar '' @ aadhar @ '' exists'')))
                 | Some user \<Rightarrow>
                     let propertyObj = [(''propertyId'', Str propertyId), (''owner'', Str userKey),
                                        (''price'', price)]
                     in (putState L propertyCompositeKey (JSON_stringify propertyObj),
                         Inr propertyObj))))"

definition viewProperty :: "ctx \<Rightarrow> ledger \<Rightarrow> string \<Rightarrow> ledger \<times> (error + jsobj)" where
  "viewProperty c L propertyId =
     (let propertyKey = Property_makeKey [Str propertyId]
      in (case catch_log (PropertyList_getProperty L (Str propertyKey)) of
            None \<Rightarrow> (L, Inl (Error (''There is no registered property with propertyId ''
                                      @ propertyId @ '' exists'')))
          | Some propertyObj \<Rightarrow> (L, Inr propertyObj)))"

definition updateProperty ::
  "ctx \<Rightarrow> ledger \<Rightarrow> string \<Rightarrow> string \<Rightarrow> string \<Rightarrow> string \<Rightarrow> ledger \<times> (error + unit)" where
  "updateProperty c L name aadhar propertyId status =
     (let userKey = User_makeKey [Str name, Str aadhar];
          propertyKey = Property_makeKey [Str propertyId]
      in (case catch_log (PropertyList_getProperty L (Str propertyKey)) of
            None \<Rightarrow> (L, Inl (Error (''Property with propertyId '' @ propertyId
                                      @ '' does not exists'')))
          | Some propertyObj \<Rightarrow>
              if js_strict_eq (obj_get propertyObj ''owner'') (Str userKey) then
                if status = PROPERTY_STATUS_REGISTERED \<or> status = PROPERTY_STATUS_ON_SALE
                  then (PropertyList_updateProperty L (obj_set propertyObj ''status'' (Str status)),
                        Inr ())
                else (L, Inl (Error
                       ''The input value of the status should be either registered or onSale''))
              else (L, Inl (Error ''Only authorized users can update the value of this property''))))"

definition purchaseProperty ::
  "ctx \<Rightarrow> ledger \<Rightarrow> string \<Rightarrow> string \<Rightarrow> string \<Rightarrow> ledger \<times> (error + unit)" where
  "purchaseProperty c L name aadhar propertyId =
     (let userKey = User_makeKey [Str name, Str aadhar];
          user = catch_log (UserList_getUser L (Str userKey));
          propertyKey = Property_makeKey [Str propertyId];
          property = catch_log (PropertyList_getProperty L (Str propertyKey))
      in (case (user, property) of
            (Some user, Some property) \<Rightarrow>
              if js_strict_eq (obj_get property ''status'') (Str PROPERTY_STATUS_ON_SALE) then
                if js_ge (obj_get user ''upgradCoins'') (obj_get property ''price'') then
                  let oldOwnerKey = obj_get property ''owner'';
                      oldOwner = catch_log (UserList_getUser L oldOwnerKey);
                      property1 = obj_set property ''status'' (Str PROPERTY_STATUS_REGISTERED);
                      user1 = obj_set user ''upgradCoins''
                                (js_sub (obj_get user ''upgradCoins'') (obj_get property1 ''price''))
                  in (case oldOwner of
                        None \<Rightarrow> (L, Inl TypeError)
                      | Some oldOwner \<Rightarrow>
                          let oldOwner1 = obj_set oldOwner ''upgradCoins''
                                            (js_add (obj_get oldOwner ''upgradCoins'')
                                                    (obj_get property1 ''price''));
                              property2 = obj_set property1 ''owner'' (Str userKey);
                              L1 = PropertyList_updateProperty L property2;
                              L2 = UserList_updateUser L1 user1;
                              L3 = UserList_updateUser L2 oldOwner1
                          in (L3, Inr ()))
                else (L, Inl (Error (''There are no sufficient funds for the user with name '' @ name
                                       @ '' and aadhar '' @ aadhar @ '' to purchase this property'')))
              else (L, Inl (Error (''The property with propertyId '' @ propertyId @ '' is not onSale'')))
          | _ \<Rightarrow> (L, Inl (Error (''There is no user with name '' @ name @ '' and aadhar '' @ aadhar
                                   @ '' exists '' @ [CHR 0x0A] @ '' OR '' @ [CHR 0x0A]
                                   @ '' There is no registered property with propertyId ''
                                   @ propertyId @ '' exists'')))))"

section \<open>RegistrarContract\<close>

definition approveNewUserRequest ::
  "ctx \<Rightarrow> ledger \<Rightarrow> string \<Rightarrow> string \<Rightarrow> ledger \<times> (error + jsobj)" where
  "approveNewUserRequest c L name aadhar =
     (if getMSPID c \<noteq> ''registrarMSP''
        then (L, Inl (Error ''Registrar's can only approve new user request''))
      else
        let userKey = User_makeKey [Str name, Str aadhar];
            userCompositeKey = createCompositeKey user_namespace [Str userKey];
            userRequestBuffer = getState L userCompositeKey
        in (case JSON_parse userRequestBuffer of
              None \<Rightarrow> (L, Inl (Error (''The new user request for name '' @ name @ '' and aadhar ''
                                        @ aadhar @ '' does not exists.'')))
            | Some userRequestObj \<Rightarrow>
                let userObj = User_createInstance (obj_set userRequestObj ''upgradCoins'' (Num 0))
                in (UserList_addUser L userObj, Inr userObj)))"

definition approvePropertyRegistrationRequest ::
  "ctx \<Rightarrow> ledger \<Rightarrow> string \<Rightarrow> ledger \<times> (error + jsobj)" where
  "approvePropertyRegistrationRequest c L propertyId =
     (if getMSPID c \<noteq> ''registrarMSP''
        then (L, Inl (Error ''Registrar's can only approve property registration request''))
      else
        let propertyKey = Property_makeKey [Str propertyId];
            propertyCompositeKey = createCompositeKey property_namespace [Str propertyKey];
            propertyRequestBuffer = getState L propertyCompositeKey
        in (case JSON_parse propertyRequestBuffer of
              None \<Rightarrow> (L, Inl (Error (''Property with propertyId '' @ propertyId
                                        @ '' does not exists.'')))
            | Some propertyRequestObj \<Rightarrow>
                let property = Property_createInstance
                                 (obj_set propertyRequestObj ''status'' (Str ''registered''))
                in (PropertyList_addProperty L property, Inr property)))"

section \<open>Records in the ledger\<close>

text \<open>
  An entity is what the constructors of \<open>User\<close> and \<open>Property\<close> build from a parsed
  record: the \<open>key\<close> property comes first and no property name occurs twice.
\<close>

definition entity :: "jsobj \<Rightarrow> bool" where
  "entity obj =
     (case obj of
        [] \<Rightarrow> False
      | (k, v) # ps \<Rightarrow> k = ''key'' \<and> plain_value v \<and> distinct (map fst obj))"

text \<open>The user and the property that the lists return for a key, if any.\<close>

definition stored_user :: "ledger \<Rightarrow> string \<Rightarrow> jsobj option" where
  "stored_user L userKey = catch_log (UserList_getUser L (Str userKey))"

definition stored_property :: "ledger \<Rightarrow> string \<Rightarrow> jsobj option" where
  "stored_property L propertyKey = catch_log (PropertyList_getProperty L (Str propertyKey))"

definition stored_balance :: "ledger \<Rightarrow> string \<Rightarrow> jsval" where
  "stored_balance L userKey =
     (case stored_user L userKey of None \<Rightarrow> Undefined | Some u \<Rightarrow> obj_get u ''upgradCoins'')"

section \<open>A sample ledger\<close>

text \<open>
  Two callers, one of each organisation, and the records of one user with 500 coins who
  owns a plot on sale for 300, as \<open>addUser\<close> and \<open>addProperty\<close> write them.
\<close>

definition user_ctx :: ctx where
  "user_ctx = \<lparr>clientMSPID = ''usersMSP'', clock = ''2020-05-01T10:00:00.000Z''\<rparr>"

definition registrar_ctx :: ctx where
  "registrar_ctx = \<lparr>clientMSPID = ''registrarMSP'', clock = ''2020-05-01T10:00:00.000Z''\<rparr>"

definition asha :: jsobj where
  "asha = [(''key'', Str ''asha:1111''), (''name'', Str ''asha''), (''email'', Str ''asha@x.in''),
           (''phone'', Str ''900''), (''aadhar'', Str ''1111''),
           (''createdAt'', Str ''2020-05-01T10:00:00.000Z''), (''upgradCoins'', Num 500)]"

definition plot :: jsobj where
  "plot = [(''key'', Str ''P1''), (''propertyId'', Str ''P1''), (''owner'', Str ''asha:1111''),
           (''price'', Num 300), (''status'', Str ''onSale'')]"

definition ledger_on_sale :: ledger where
  "ledger_on_sale = PropertyList_addProperty (UserList_addUser Map.empty asha) plot"

text \<open>
  The same ledger as the contract functions build it from the empty one, and the state
  after the first step, in which the user has asked for registration and is not approved.
\<close>

definition asha_request :: jsobj where
  "asha_request = [(''name'', Str ''asha''), (''email'', Str ''asha@x.in''), (''phone'', Str ''900''),
                   (''aadhar'', Str ''1111''), (''createdAt'', Str ''2020-05-01T10:00:00.000Z'')]"

definition ledger_requested :: ledger where
  "ledger_requested = fst (requestNewUser user_ctx Map.empty ''asha'' ''asha@x.in'' ''900'' ''1111'')"

definition ledger_approved :: ledger where
  "ledger_approved = fst (approveNewUserRequest registrar_ctx ledger_requested ''asha'' ''1111'')"

definition ledger_funded :: ledger where
  "ledger_funded = fst (rechargeAccount user_ctx ledger_approved ''asha'' ''1111'' ''upg500'')"

definition ledger_plot_requested :: ledger where
  "ledger_plot_requested =
     fst (propertyRegistrationRequest user_ctx ledger_funded ''asha'' ''1111'' ''P1'' (Num 300))"

definition ledger_plot_registered :: ledger where
  "ledger_plot_registered =
     fst (approvePropertyRegistrationRequest registrar_ctx ledger_plot_requested ''P1'')"

definition history_on_sale :: ledger where
  "history_on_sale = fst (updateProperty user_ctx ledger_plot_registered ''asha'' ''1111'' ''P1'' ''onSale'')"



text \<open>A caller of neither organisation.\<close>

definition stranger_ctx :: ctx where
  "stranger_ctx = \<lparr>clientMSPID = ''othersMSP'', clock = ''2020-05-01T10:00:00.000Z''\<rparr>"

section \<open>Outcomes\<close>

text \<open>An outcome that is an error comes with the ledger the invocation started from.\<close>

definition keeps_ledger_on_error :: "ledger \<Rightarrow> ledger \<times> (error + 'a) \<Rightarrow> bool" where
  "keeps_ledger_on_error L res = (case snd res of Inl e \<Rightarrow> fst res = L | Inr x \<Rightarrow> True)"

section \<open>Ledgers that the contracts build\<close>

text \<open>
  Every record is stored under its own key: the user that the list returns for a key
  carries that key, and so does the property.
\<close>

definition own_keys :: "ledger \<Rightarrow> bool" where
  "own_keys L =
     ((\<forall>k u. stored_user L k = Some u \<longrightarrow> User_getKey u = Str k)
      \<and> (\<forall>k p. stored_property L k = Some p \<longrightarrow> Property_getKey p = Str k))"

text \<open>
  The ledgers that invocations of the seven mutating operations build from the empty
  ledger, with any caller and any arguments, whatever the outcome of each invocation.
\<close>

inductive reachable :: "ledger \<Rightarrow> bool" where
  empty: "reachable Map.empty"
| requestNewUser:
    "reachable L \<Longrightarrow> reachable (fst (requestNewUser c L name email phone aadhar))"
| rechargeAccount:
    "reachable L \<Longrightarrow> reachable (fst (rechargeAccount c L name aadhar transactionID))"
| propertyRegistrationRequest:
    "reachable L \<Longrightarrow> reachable (fst (propertyRegistrationRequest c L name aadhar propertyId price))"
| updateProperty:
    "reachable L \<Longrightarrow> reachable (fst (updateProperty c L name aadhar propertyId status))"
| purchaseProperty:
    "reachable L \<Longrightarrow> reachable (fst (purchaseProperty c L name aadhar propertyId))"
| approveNewUserRequest:
    "reachable L \<Longrightarrow> reachable (fst (approveNewUserRequest c L name aadhar))"
| approvePropertyRegistrationRequest:
    "reachable L \<Longrightarrow> reachable (fst (approvePropertyRegistrationRequest c L propertyId))"

section \<open>Properties of the JSON text\<close>

lemma hex_val_hex_char: "d < 16 \<Longrightarrow> hex_val (hex_char d) = Some d"
  by (auto simp: hex_val_def hex_char_def Let_def)

lemma unicode_escape_control:
  assumes "(of_char c :: nat) < 32"
  shows "unicode_escape (CHR ''0'') (CHR ''0'') (hex_char (of_char c div 16)) (hex_char (of_char c mod 16)) = Some c"
proof -
  let ?n = "of_char c :: nat"
  have h: "?n div 16 < 16" "?n mod 16 < 16" "?n div 16 < 8" using assms by auto
  have z: "hex_val (CHR ''0'') = Some 0" by (simp add: hex_val_def)
  have "char_of (16 * (?n div 16) + ?n mod 16) = c" by simp
  then show ?thesis
    using h by (simp add: unicode_escape_def z hex_val_hex_char)
qed

lemma parse_chars_quote_char:
  "parse_chars (quote_char c @ xs) = cons_result c (parse_chars xs)"
proof -
  consider (q) "c = quote" | (b) "c = backslash"
    | (s) "c \<in> {CHR 0x08, CHR 0x0C, CHR 0x0A, CHR 0x0D, CHR 0x09}"
    | (u) "c \<noteq> quote" "c \<noteq> backslash" "c \<notin> {CHR 0x08, CHR 0x0C, CHR 0x0A, CHR 0x0D, CHR 0x09}" "(of_char c :: nat) < 32"
    | (p) "c \<noteq> quote" "c \<noteq> backslash" "\<not> (of_char c :: nat) < 32"
    by auto
  then show ?thesis
  proof cases
    case q then show ?thesis by (simp add: quote_char_def unescape_def quote_def backslash_def)
  next
    case b then show ?thesis by (simp add: quote_char_def unescape_def quote_def backslash_def)
  next
    case s then show ?thesis by (auto simp: quote_char_def unescape_def quote_def backslash_def)
  next
    case u then show ?thesis
      by (simp add: quote_char_def unicode_escape_control) (simp add: quote_def backslash_def)
  next
    case p
    then have "quote_char c = [c]" by (auto simp: quote_char_def)
    then show ?thesis using p by simp
  qed
qed

lemma parse_chars_quoted:
  "parse_chars (concat (map quote_char s) @ quote # rest) = Some (s, rest)"
  by (induction s) (simp_all add: parse_chars_quote_char)

lemma is_digit_digit_char: "d < 10 \<Longrightarrow> is_digit (digit_char d)"
  by (simp add: is_digit_def digit_char_def)

lemma digit_val_digit_char: "d < 10 \<Longrightarrow> digit_val (digit_char d) = d"
  by (simp add: digit_val_def digit_char_def)

lemma show_nat_digits: "\<forall>c \<in> set (show_nat n). is_digit c"
  by (induction n rule: show_nat.induct)
     (subst show_nat.simps, auto simp: is_digit_digit_char)

lemma show_nat_nonempty: "show_nat n \<noteq> []"
  by (subst show_nat.simps) simp

lemma read_nat_snoc: "read_nat (ds @ [c]) = 10 * read_nat ds + digit_val c"
  by (simp add: read_nat_def)

lemma read_show_nat: "read_nat (show_nat n) = n"
proof (induction n rule: show_nat.induct)
  case (1 n)
  show ?case
  proof (cases "n < 10")
    case True
    then show ?thesis
      by (subst show_nat.simps) (simp add: read_nat_def digit_val_digit_char)
  next
    case False
    then show ?thesis using 1
      by (subst show_nat.simps) (simp add: read_nat_snoc digit_val_digit_char)
  qed
qed

lemma hd_show_nat: "hd (show_nat n) = CHR ''0'' \<Longrightarrow> n = 0"
proof (induction n rule: show_nat.induct)
  case (1 n)
  show ?case
  proof (cases "n < 10")
    case True
    with 1(2) have "digit_char n = CHR ''0''" by (subst (asm) show_nat.simps) simp
    then have "digit_val (digit_char n) = digit_val (CHR ''0'')" by simp
    then show ?thesis using True by (simp add: digit_val_digit_char) (simp add: digit_val_def)
  next
    case False
    with 1(2) have "hd (show_nat (n div 10)) = CHR ''0''"
      by (subst (asm) show_nat.simps) (simp add: show_nat_nonempty)
    with 1(1) False have "n div 10 = 0" by simp
    with False show ?thesis by simp
  qed
qed

lemma length_show_nat_0: "length (show_nat 0) = 1"
  by (subst show_nat.simps) simp

lemma not_digit_minus: "\<not> is_digit (CHR ''-'')"
  by (simp add: is_digit_def)

lemma hd_show_nat_not_minus: "hd (show_nat n) \<noteq> CHR ''-''"
  using show_nat_digits [of n] show_nat_nonempty [of n] not_digit_minus
  by (cases "show_nat n") auto

lemma takeWhile_show_nat:
  "ends_number rest \<Longrightarrow> takeWhile is_digit (show_nat n @ rest) = show_nat n"
  using show_nat_digits [of n]
  by (cases rest) (auto simp: ends_number_def takeWhile_append2 )

lemma dropWhile_show_nat:
  "ends_number rest \<Longrightarrow> dropWhile is_digit (show_nat n @ rest) = rest"
  using show_nat_digits [of n]
  by (cases rest) (auto simp: ends_number_def dropWhile_append2)

lemma parse_number_show_nat:
  assumes "ends_number rest"
  shows "parse_number (show_nat n @ rest) = Some (int n, rest)"
proof -
  have a: "hd (show_nat n @ rest) \<noteq> CHR ''-''"
    using hd_show_nat_not_minus [of n] show_nat_nonempty [of n] by simp
  have b: "\<not> (length (show_nat n) > 1 \<and> hd (show_nat n) = CHR ''0'')"
    using hd_show_nat [of n] length_show_nat_0 by auto
  show ?thesis
    using a b assms
    by (simp add: parse_number_def Let_def takeWhile_show_nat dropWhile_show_nat
        show_nat_nonempty read_show_nat)
qed

lemma parse_number_show_int:
  assumes "ends_number rest"
  shows "parse_number (show_int i @ rest) = Some (i, rest)"
proof (cases "i < 0")
  case True
  have b: "\<not> (length (show_nat (nat (- i))) > 1 \<and> hd (show_nat (nat (- i))) = CHR ''0'')"
    using hd_show_nat [of "nat (- i)"] length_show_nat_0 by auto
  show ?thesis using True b assms
    by (simp add: parse_number_def show_int_def Let_def takeWhile_show_nat dropWhile_show_nat
        show_nat_nonempty read_show_nat)
next
  case False
  then show ?thesis using parse_number_show_nat [OF assms, of "nat i"]
    by (simp add: show_int_def)
qed

lemma json_members_norm: "json_members (json_norm obj) = json_members obj"
  by (induction obj rule: json_norm.induct) (auto split: jsval.splits)

lemma plain_norm: "plain (json_norm obj)"
  by (induction obj rule: json_norm.induct) (auto simp: plain_def split: jsval.splits)

lemma fst_norm_subset: "(k, v) \<in> set (json_norm obj) \<Longrightarrow> k \<in> fst ` set obj"
  by (induction obj rule: json_norm.induct) (force split: jsval.splits)+

lemma distinct_norm: "distinct (map fst obj) \<Longrightarrow> distinct (map fst (json_norm obj))"
  by (induction obj rule: json_norm.induct) (auto split: jsval.splits dest: fst_norm_subset)

lemma ends_value_number: "ends_value rest \<Longrightarrow> ends_number rest"
  by (auto simp: ends_value_def ends_number_def is_digit_def)

lemma hd_show_int: "hd (show_int i) \<noteq> quote \<and> hd (show_int i) \<noteq> CHR ''n''"
proof -
  have nd: "\<not> is_digit quote" "\<not> is_digit (CHR ''n'')" by (simp_all add: is_digit_def quote_def)
  have d: "is_digit (hd (show_nat n))" for n
    using show_nat_digits [of n] show_nat_nonempty [of n] by (cases "show_nat n") auto
  show ?thesis
  proof (cases "i < 0")
    case True
    then show ?thesis by (simp add: show_int_def quote_def)
  next
    case False
    then have "hd (show_int i) = hd (show_nat (nat i))" by (simp add: show_int_def)
    with d [of "nat i"] nd show ?thesis by metis
  qed
qed

lemma show_int_nonempty: "show_int i \<noteq> []"
  by (simp add: show_int_def show_nat_nonempty)

lemma parse_value_text:
  assumes "json_value v = Some t" "plain_value v" "ends_value rest"
  shows "parse_value (t @ rest) = Some (v, rest)"
proof (cases v)
  case (Num i)
  obtain c cs where c: "show_int i = c # cs"
    using show_int_nonempty [of i] by (cases "show_int i") auto
  with hd_show_int [of i] have nq: "c \<noteq> quote" "c \<noteq> CHR ''n''" by auto
  have pn: "parse_number (c # cs @ rest) = Some (i, rest)"
    using parse_number_show_int [OF ends_value_number [OF assms(3)], of i] c by simp
  have t: "t = c # cs" using assms(1) Num c by simp
  show ?thesis unfolding t Num
    by (simp add: parse_value_def nq pn)
next
  case (Str s)
  have t: "t = quote # concat (map quote_char s) @ [quote]"
    using assms(1) Str by (simp add: quote_string_def)
  show ?thesis unfolding t Str
    by (simp add: parse_value_def parse_chars_quoted)
qed (use assms in \<open>auto simp: parse_value_def quote_def\<close>)

lemma obj_set_fresh: "k \<notin> fst ` set obj \<Longrightarrow> obj_set obj k v = obj @ [(k, v)]"
  by (induction obj) auto

lemma Object_assign_fresh:
  "distinct (map fst (acc @ ps)) \<Longrightarrow> Object_assign acc ps = acc @ ps"
proof (induction ps arbitrary: acc)
  case Nil
  then show ?case by (simp add: Object_assign_def)
next
  case (Cons p ps)
  obtain k v where p: "p = (k, v)" by (cases p)
  have f: "obj_set acc k v = acc @ [(k, v)]"
    using Cons.prems p by (intro obj_set_fresh) auto
  have "Object_assign acc (p # ps) = Object_assign (acc @ [(k, v)]) ps"
    by (simp add: Object_assign_def p f)
  also have "\<dots> = (acc @ [(k, v)]) @ ps"
    using Cons.prems p by (intro Cons.IH) auto
  finally show ?case by (simp add: p)
qed

lemma json_members_plain_length:
  "plain ps \<Longrightarrow> length (json_members ps) = length ps"
  by (induction ps rule: json_members.induct)
     (auto simp: plain_def split: option.splits elim: plain_value.elims)

lemma join_members_length:
  "\<forall>m \<in> set ms. m \<noteq> [] \<Longrightarrow> length ms \<le> length (join_members ms)"
  by (induction ms rule: join_members.induct) (auto simp: Suc_le_eq)

lemma json_members_nonempty: "\<forall>m \<in> set (json_members ps). m \<noteq> []"
  by (induction ps rule: json_members.induct) (auto simp: quote_string_def split: option.splits)

lemma parse_members_text:
  assumes "plain ps" "ps \<noteq> []" "length ps \<le> n"
  shows "parse_members n (join_members (json_members ps) @ ''}'') acc = Some (Object_assign acc ps)"
  using assms
proof (induction ps arbitrary: n acc)
  case Nil
  then show ?case by simp
next
  case (Cons p ps)
  obtain k v where p: "p = (k, v)" by (cases p)
  from Cons.prems p have pv: "plain_value v" and pp: "plain ps" by (auto simp: plain_def)
  then obtain t where t: "json_value v = Some t" by (cases v) auto
  from Cons.prems obtain m where n: "n = Suc m" and m: "length ps \<le> m" by (cases n) auto
  show ?case
  proof (cases "ps = []")
    case True
    have v: "parse_value (t @ ''}'') = Some (v, ''}'')"
      by (rule parse_value_text [OF t pv]) (simp add: ends_value_def)
    show ?thesis
      by (simp add: True p t n quote_string_def parse_chars_quoted v Object_assign_def)
  next
    case False
    then obtain q qs where q: "json_members ps = q # qs"
      using json_members_plain_length [OF pp] by (cases "json_members ps") auto
    let ?rest = "CHR '','' # join_members (json_members ps) @ ''}''"
    have v: "parse_value (t @ ?rest) = Some (v, ?rest)"
      by (rule parse_value_text [OF t pv]) (simp add: ends_value_def)
    have ih: "parse_members m (join_members (json_members ps) @ ''}'') (obj_set acc k v)
              = Some (Object_assign (obj_set acc k v) ps)"
      using Cons.IH [OF pp False m] .
    have j: "join_members ((quote_string k @ CHR '':'' # t) # json_members ps)
             = quote_string k @ CHR '':'' # t @ CHR '','' # join_members (json_members ps)"
      by (simp add: q)
    show ?thesis
      unfolding p json_members.simps t option.case j n
      by (simp add: quote_string_def parse_chars_quoted v ih Object_assign_def)
  qed
qed

theorem JSON_parse_stringify:
  assumes "distinct (map fst obj)"
  shows "JSON_parse (JSON_stringify obj) = Some (json_norm obj)"
proof (cases "json_norm obj = []")
  case True
  then have "json_members obj = []"
    using json_members_norm [of obj] by simp
  then show ?thesis using True by (simp add: JSON_parse_def JSON_stringify_def)
next
  case False
  let ?ps = "json_norm obj"
  let ?r = "join_members (json_members ?ps) @ ''}''"
  have pl: "plain ?ps" by (rule plain_norm)
  have len: "length ?ps \<le> length ?r"
    using join_members_length [OF json_members_nonempty, of ?ps] json_members_plain_length [OF pl]
    by simp
  have ne: "?r \<noteq> ''}''"
  proof -
    obtain q qs where "json_members ?ps = q # qs"
      using json_members_plain_length [OF pl] False by (cases "json_members ?ps") auto
    moreover have "q \<noteq> []" using json_members_nonempty [of ?ps] calculation by auto
    ultimately show ?thesis by (cases qs; cases q) auto
  qed
  have "parse_members (length ?r) ?r [] = Some (Object_assign [] ?ps)"
    by (rule parse_members_text [OF pl False len])
  also have "Object_assign [] ?ps = ?ps"
    using Object_assign_fresh [of "[]" ?ps] distinct_norm [OF assms] by simp
  finally show ?thesis using ne
    by (simp add: JSON_parse_def JSON_stringify_def json_members_norm)
qed

lemma obj_get_set: "obj_get (obj_set obj k v) k' = (if k' = k then v else obj_get obj k')"
  by (induction obj) auto

lemma obj_get_absent: "k \<notin> set (map fst obj) \<Longrightarrow> obj_get obj k = Undefined"
  by (induction obj) auto

lemma map_fst_obj_set:
  "map fst (obj_set obj k v) = (if k \<in> set (map fst obj) then map fst obj else map fst obj @ [k])"
  by (induction obj) (auto simp: rev_image_eqI)

lemma distinct_obj_set: "distinct (map fst obj) \<Longrightarrow> distinct (map fst (obj_set obj k v))"
  by (simp add: map_fst_obj_set)

lemma plain_obj_set: "plain obj \<Longrightarrow> plain_value v \<Longrightarrow> plain (obj_set obj k v)"
  by (induction obj) (auto simp: plain_def)

lemma parse_value_plain: "parse_value s = Some (v, r) \<Longrightarrow> plain_value v"
  by (auto simp: parse_value_def split: list.splits if_splits)

lemma parse_members_inv:
  "distinct (map fst acc) \<and> plain acc \<Longrightarrow> parse_members n s acc = Some obj
   \<Longrightarrow> distinct (map fst obj) \<and> plain obj"
proof (induction n s acc rule: parse_members.induct)
  case (1 s acc)
  then show ?case by simp
next
  case (2 n s acc)
  from "2.prems"(2) obtain q s1 k s2 c s3 v s4 where
    s: "s = q # s1" "q = quote" "parse_chars s1 = Some (k, s2)" "s2 = c # s3" "c = CHR '':''"
       "parse_value s3 = Some (v, s4)"
    by (simp split: list.splits if_splits option.splits prod.splits)
  have inv: "distinct (map fst (obj_set acc k v)) \<and> plain (obj_set acc k v)"
    using "2.prems"(1) parse_value_plain [OF s(6)] by (simp add: distinct_obj_set plain_obj_set)
  show ?case
  proof (cases "s4 = ''}''")
    case True
    with "2.prems"(2) s have "obj = obj_set acc k v" by simp
    with inv show ?thesis by simp
  next
    case False
    with "2.prems"(2) s obtain d s5 where
      t: "s4 = d # s5" "d = CHR '',''" "parse_members n s5 (obj_set acc k v) = Some obj"
      by (simp split: list.splits if_splits)
    show ?thesis
      using "2.IH" [of q s1 "(k, s2)" k s2 c s3 "(v, s4)" v s4 d s5] s t False inv by simp
  qed
qed

lemma JSON_parse_inv:
  "JSON_parse s = Some obj \<Longrightarrow> distinct (map fst obj) \<and> plain obj"
  by (auto simp: JSON_parse_def plain_def split: list.splits if_splits dest: parse_members_inv [rotated])

lemma obj_get_norm:
  "distinct (map fst obj) \<Longrightarrow> obj_get (json_norm obj) k = json_norm_value (obj_get obj k)"
proof (induction obj rule: json_norm.induct)
  case 1
  then show ?case by simp
next
  case (2 k' v ps)
  have "k' \<notin> set (map fst (json_norm ps))" using "2.prems" by (auto dest: fst_norm_subset)
  then have nk: "obj_get (json_norm ps) k' = Undefined" by (rule obj_get_absent)
  show ?case using 2 nk by (cases v) auto
qed

lemma cons_result_Some:
  "cons_result c r = Some (x, t) \<Longrightarrow> \<exists>y. r = Some (y, t) \<and> x = c # y"
  by (cases r) auto

lemma parse_chars_shorter: "parse_chars s = Some (x, r) \<Longrightarrow> length r < length s"
proof (induction "length s" arbitrary: s x rule: less_induct)
  case less
  note IH = less.hyps
  from less.prems obtain c cs where s: "s = c # cs" by (cases s) auto
  show ?case
  proof (cases "c = quote")
    case True
    with less.prems s show ?thesis by simp
  next
    case nq: False
    show ?thesis
    proof (cases "c = backslash")
      case True
      then obtain e es where cs: "cs = e # es"
        using less.prems nq s by (cases cs) auto
      show ?thesis
      proof (cases "e = CHR ''u''")
        case u: True
        from less.prems nq True s cs u obtain a b h l rest y where
          es: "es = a # b # h # l # rest" and ue: "unicode_escape a b h l = Some y"
          and res: "cons_result y (parse_chars rest) = Some (x, r)"
          by (auto split: list.splits option.splits)
        from cons_result_Some [OF res] obtain z where z: "parse_chars rest = Some (z, r)" by auto
        have "length rest < length s" using s cs es by simp
        from IH [OF this z] show ?thesis using s cs es by simp
      next
        case nu: False
        from less.prems nq True s cs nu obtain y where
          ue: "unescape e = Some y" and res: "cons_result y (parse_chars es) = Some (x, r)"
          by (auto split: option.splits)
        from cons_result_Some [OF res] obtain z where z: "parse_chars es = Some (z, r)" by auto
        have "length es < length s" using s cs by simp
        from IH [OF this z] show ?thesis using s cs by simp
      qed
    next
      case nb: False
      from less.prems s nq nb have res: "cons_result c (parse_chars cs) = Some (x, r)"
        by (auto split: if_splits)
      from cons_result_Some [OF res] obtain z where z: "parse_chars cs = Some (z, r)" by auto
      have "length cs < length s" using s by simp
      from IH [OF this z] show ?thesis using s by simp
    qed
  qed
qed

lemma parse_value_shorter: "parse_value s = Some (v, r) \<Longrightarrow> length r \<le> length s"
  by (auto simp: parse_value_def parse_number_def Let_def length_dropWhile_le le_SucI
      split: list.splits if_splits dest!: parse_chars_shorter)

lemma parse_members_step:
  assumes "parse_members (Suc n) s acc = Some obj"
  shows "\<exists>k v s4. length s4 < length s
      \<and> (s4 = ''}'' \<and> obj = obj_set acc k v
           \<or> (\<exists>s5. s4 \<noteq> ''}'' \<and> s4 = CHR '','' # s5
                  \<and> parse_members n s5 (obj_set acc k v) = Some obj))
      \<and> (\<forall>m. parse_members (Suc m) s acc =
             (if s4 = ''}'' then Some (obj_set acc k v)
              else parse_members m (tl s4) (obj_set acc k v)))"
proof -
  from assms obtain q s1 k s2 c s3 v s4 where
    s: "s = q # s1" "q = quote" "parse_chars s1 = Some (k, s2)" "s2 = c # s3" "c = CHR '':''"
       "parse_value s3 = Some (v, s4)"
    by (simp split: list.splits if_splits option.splits prod.splits)
  have len: "length s4 < length s"
    using parse_chars_shorter [OF s(3)] parse_value_shorter [OF s(6)] s(1,4) by simp
  have unf: "parse_members (Suc m) s acc =
           (if s4 = ''}'' then Some (obj_set acc k v)
            else (case s4 of [] \<Rightarrow> None
                  | d # s5 \<Rightarrow> if d = CHR '','' then parse_members m s5 (obj_set acc k v) else None))"
    for m
    by (subst parse_members.simps) (simp add: s del: parse_members.simps)
  have alt: "s4 = ''}'' \<and> obj = obj_set acc k v
         \<or> (\<exists>s5. s4 \<noteq> ''}'' \<and> s4 = CHR '','' # s5 \<and> parse_members n s5 (obj_set acc k v) = Some obj)"
  proof (cases "s4 = ''}''")
    case True
    with assms unf [of n] show ?thesis by (simp del: parse_members.simps)
  next
    case False
    with assms unf [of n] obtain d s5 where "s4 = d # s5" "d = CHR '',''"
      "parse_members n s5 (obj_set acc k v) = Some obj"
      by (cases s4) (auto simp del: parse_members.simps split: if_splits)
    with False show ?thesis by blast
  qed
  have eq: "\<forall>m. parse_members (Suc m) s acc =
           (if s4 = ''}'' then Some (obj_set acc k v) else parse_members m (tl s4) (obj_set acc k v))"
  proof (cases "s4 = ''}''")
    case True
    then show ?thesis by (simp add: unf del: parse_members.simps)
  next
    case False
    with alt obtain s5 where "s4 = CHR '','' # s5" by blast
    with False show ?thesis by (simp add: unf del: parse_members.simps)
  qed
  show ?thesis
    by (rule exI [of _ k], rule exI [of _ v], rule exI [of _ s4]) (intro conjI len alt eq)
qed

lemma parse_members_fuel:
  "parse_members n s acc = Some obj \<Longrightarrow> length s \<le> m \<Longrightarrow> parse_members m s acc = Some obj"
proof (induction n arbitrary: s acc m)
  case 0
  then show ?case by simp
next
  case (Suc n)
  from parse_members_step [OF Suc.prems(1)] obtain k v s4 where
    f: "length s4 < length s
      \<and> (s4 = ''}'' \<and> obj = obj_set acc k v
           \<or> (\<exists>s5. s4 \<noteq> ''}'' \<and> s4 = CHR '','' # s5
                  \<and> parse_members n s5 (obj_set acc k v) = Some obj))
      \<and> (\<forall>m. parse_members (Suc m) s acc =
             (if s4 = ''}'' then Some (obj_set acc k v)
              else parse_members m (tl s4) (obj_set acc k v)))"
    by (elim exE) (rule that)
  from f have len: "length s4 < length s" by (rule conjunct1)
  from f have alt: "s4 = ''}'' \<and> obj = obj_set acc k v
         \<or> (\<exists>s5. s4 \<noteq> ''}'' \<and> s4 = CHR '','' # s5 \<and> parse_members n s5 (obj_set acc k v) = Some obj)"
    by (rule conjunct1 [OF conjunct2])
  from f have eq: "\<forall>j. parse_members (Suc j) s acc =
           (if s4 = ''}'' then Some (obj_set acc k v) else parse_members j (tl s4) (obj_set acc k v))"
    by (rule conjunct2 [OF conjunct2])
  from len Suc.prems(2) obtain j where m: "m = Suc j" and j: "length s4 \<le> j" by (cases m) auto
  from alt show ?case
  proof
    assume "s4 = ''}'' \<and> obj = obj_set acc k v"
    then show ?thesis using eq [rule_format, of j] by (simp add: m del: parse_members.simps)
  next
    assume "\<exists>s5. s4 \<noteq> ''}'' \<and> s4 = CHR '','' # s5 \<and> parse_members n s5 (obj_set acc k v) = Some obj"
    then obtain s5 where ne: "s4 \<noteq> ''}''" and s5: "s4 = CHR '','' # s5"
      and rec: "parse_members n s5 (obj_set acc k v) = Some obj" by blast
    have "length s5 \<le> j" using j s5 by simp
    from Suc.IH [OF rec this] show ?thesis using ne s5 eq [rule_format, of j]
      by (simp add: m del: parse_members.simps)
  qed
qed

lemma JSON_parse_fuel:
  "parse_members n r [] = Some obj \<Longrightarrow> r \<noteq> ''}'' \<Longrightarrow> JSON_parse (CHR ''{'' # r) = Some obj"
  using parse_members_fuel [of n r "[]" obj "length r"] by (simp add: JSON_parse_def)

section \<open>Properties of the models and the lists\<close>

lemma Object_assign_Cons:
  "Object_assign t ((k, v) # ps) = Object_assign (obj_set t k v) ps"
  by (simp add: Object_assign_def)

lemma Object_assign_Nil: "Object_assign t [] = t"
  by (simp add: Object_assign_def)

lemma Object_assign_distinct:
  "distinct (map fst t) \<Longrightarrow> distinct (map fst (Object_assign t src))"
proof (induction src arbitrary: t)
  case Nil
  then show ?case by (simp add: Object_assign_Nil)
next
  case (Cons p ps)
  obtain k v where p: "p = (k, v)" by (cases p)
  show ?case unfolding p Object_assign_Cons
    by (rule Cons.IH) (rule distinct_obj_set [OF Cons.prems])
qed

lemma Object_assign_plain:
  "plain t \<Longrightarrow> plain src \<Longrightarrow> plain (Object_assign t src)"
proof (induction src arbitrary: t)
  case Nil
  then show ?case by (simp add: Object_assign_Nil)
next
  case (Cons p ps)
  obtain k v where p: "p = (k, v)" by (cases p)
  from Cons.prems(2) p have v: "plain_value v" and ps: "plain ps" by (auto simp: plain_def)
  show ?case unfolding p Object_assign_Cons
    by (rule Cons.IH [OF plain_obj_set [OF Cons.prems(1) v] ps])
qed

lemma Object_assign_head:
  "\<exists>v' ps'. Object_assign ((k0, v0) # t) src = (k0, v') # ps'"
proof (induction src arbitrary: v0 t)
  case Nil
  then show ?case by (simp add: Object_assign_Nil)
next
  case (Cons p ps)
  obtain k v where p: "p = (k, v)" by (cases p)
  show ?case unfolding p Object_assign_Cons
    using Cons.IH by (cases "k0 = k") auto
qed

lemma entity_intro:
  "distinct (map fst obj) \<Longrightarrow> plain obj \<Longrightarrow> obj = (''key'', v) # ps \<Longrightarrow> entity obj"
  by (auto simp: entity_def plain_def)

lemma entity_new:
  assumes "distinct (map fst json)" "plain json"
  shows "entity (Object_assign [(''key'', Str s)] json)"
proof -
  let ?t = "[(''key'', Str s)]"
  obtain v' ps' where h: "Object_assign ?t json = (''key'', v') # ps'"
    using Object_assign_head [of "''key''" "Str s" "[]" json] by auto
  have "distinct (map fst (Object_assign ?t json))" by (rule Object_assign_distinct) simp
  moreover have "plain (Object_assign ?t json)"
    by (rule Object_assign_plain [OF _ assms(2)]) (simp add: plain_def)
  ultimately show ?thesis using h by (simp add: entity_intro)
qed

lemma entity_distinct: "entity obj \<Longrightarrow> distinct (map fst obj)"
  by (auto simp: entity_def split: list.splits)

lemma entity_obj_set:
  assumes "entity obj" "k \<noteq> ''key''"
  shows "entity (obj_set obj k v)"
proof -
  from assms obtain x ps where o: "obj = (''key'', x) # ps" and x: "plain_value x"
    by (auto simp: entity_def split: list.splits)
  have "obj_set obj k v = (''key'', x) # obj_set ps k v" using o assms(2) by simp
  moreover have "distinct (map fst (obj_set obj k v))"
    by (rule distinct_obj_set [OF entity_distinct [OF assms(1)]])
  ultimately show ?thesis using x by (simp add: entity_def)
qed

lemma entity_norm: "entity obj \<Longrightarrow> entity (json_norm obj)"
proof -
  assume e: "entity obj"
  then obtain v ps where o: "obj = (''key'', v) # ps" and v: "plain_value v"
    by (auto simp: entity_def split: list.splits)
  have "json_norm obj = (''key'', v) # json_norm ps" using o v by (cases v) auto
  moreover have "distinct (map fst (json_norm obj))"
    by (rule distinct_norm [OF entity_distinct [OF e]])
  ultimately show ?thesis using v by (simp add: entity_def)
qed

lemma new_entity:
  assumes "entity obj"
  shows "Object_assign [(''key'', x)] obj = obj"
proof -
  from assms obtain v ps where o: "obj = (''key'', v) # ps" and d: "distinct (map fst obj)"
    by (auto simp: entity_def split: list.splits)
  have "Object_assign [(''key'', x)] obj = Object_assign [(''key'', v)] ps"
    by (simp add: o Object_assign_Cons)
  also have "\<dots> = [(''key'', v)] @ ps"
    by (rule Object_assign_fresh) (use d o in simp)
  finally show ?thesis by (simp add: o)
qed

lemma User_fromBuffer_entity: "User_fromBuffer b = Inr u \<Longrightarrow> entity u"
  by (auto simp: User_fromBuffer_def User_new_def split: option.splits
           dest!: JSON_parse_inv intro: entity_new)

lemma Property_fromBuffer_entity: "Property_fromBuffer b = Inr p \<Longrightarrow> entity p"
  by (auto simp: Property_fromBuffer_def Property_new_def split: option.splits
           dest!: JSON_parse_inv intro: entity_new)

lemma User_fromBuffer_toBuffer:
  "entity u \<Longrightarrow> User_fromBuffer (User_toBuffer u) = Inr (json_norm u)"
  by (simp add: User_fromBuffer_def User_toBuffer_def JSON_parse_stringify entity_distinct
      User_new_def new_entity entity_norm)

lemma Property_fromBuffer_toBuffer:
  "entity p \<Longrightarrow> Property_fromBuffer (Property_toBuffer p) = Inr (json_norm p)"
  by (simp add: Property_fromBuffer_def Property_toBuffer_def JSON_parse_stringify entity_distinct
      Property_new_def new_entity entity_norm)

lemma JSON_stringify_norm: "JSON_stringify (json_norm obj) = JSON_stringify obj"
  by (simp add: JSON_stringify_def json_members_norm)

lemma composite_key_eq:
  "createCompositeKey ns [a] = createCompositeKey ns [b] \<longleftrightarrow> to_string a = to_string b"
  by (simp add: createCompositeKey_def)

lemma user_key_not_property_key:
  "createCompositeKey UserList_name [a] \<noteq> createCompositeKey PropertyList_name [b]"
  by (simp add: createCompositeKey_def UserList_name_def PropertyList_name_def)

lemma namespaces: "user_namespace = UserList_name" "property_namespace = PropertyList_name"
  by (simp_all add: user_namespace_def UserList_name_def property_namespace_def PropertyList_name_def)

lemma makeKey_single: "Property_makeKey [Str s] = s"
  by (simp add: Property_makeKey_def)

lemma getState_putState: "getState (putState L k v) k' = (if k' = k then v else getState L k')"
  by (simp add: getState_def putState_def)

lemma catch_log_simps [simp]: "catch_log (Inl e) = None" "catch_log (Inr x) = Some x"
  by (simp_all add: catch_log_def)

lemma getUser_any_key: "catch_log (UserList_getUser L v) = stored_user L (to_string v)"
  by (simp add: stored_user_def UserList_getUser_def createCompositeKey_def)

lemma stored_user_entity: "stored_user L k = Some u \<Longrightarrow> entity u"
  by (auto simp: stored_user_def UserList_getUser_def catch_log_def split: sum.splits
           dest: User_fromBuffer_entity)

lemma stored_property_entity: "stored_property L k = Some p \<Longrightarrow> entity p"
  by (auto simp: stored_property_def PropertyList_getProperty_def catch_log_def split: sum.splits
           dest: Property_fromBuffer_entity)

lemma stored_user_updateUser:
  "entity u \<Longrightarrow> stored_user (UserList_updateUser L u) k =
     (if to_string (User_getKey u) = k then Some (json_norm u) else stored_user L k)"
  by (simp add: stored_user_def UserList_getUser_def UserList_updateUser_def getState_putState
      composite_key_eq User_fromBuffer_toBuffer eq_commute)

lemma stored_user_updateProperty:
  "stored_user (PropertyList_updateProperty L p) k = stored_user L k"
  by (simp add: stored_user_def UserList_getUser_def PropertyList_updateProperty_def
      getState_putState user_key_not_property_key)

lemma stored_property_updateProperty:
  "entity p \<Longrightarrow> stored_property (PropertyList_updateProperty L p) k =
     (if to_string (Property_getKey p) = k then Some (json_norm p) else stored_property L k)"
  by (simp add: stored_property_def PropertyList_getProperty_def PropertyList_updateProperty_def
      getState_putState composite_key_eq Property_fromBuffer_toBuffer eq_commute)

lemma stored_property_updateUser:
  "stored_property (UserList_updateUser L u) k = stored_property L k"
  by (simp add: stored_property_def PropertyList_getProperty_def UserList_updateUser_def
      getState_putState user_key_not_property_key [symmetric])

lemma addUser_updateUser: "UserList_addUser L u = UserList_updateUser L u"
  by (simp add: UserList_addUser_def UserList_updateUser_def)

lemma addProperty_updateProperty: "PropertyList_addProperty L p = PropertyList_updateProperty L p"
  by (simp add: PropertyList_addProperty_def PropertyList_updateProperty_def)

lemma js_ge_Num: "js_ge (Num a) (Num b) = (b \<le> a)"
  by (simp add: js_ge_def)

lemma js_sub_Num: "js_sub (Num a) (Num b) = Num (a - b)"
  by (simp add: js_sub_def)

lemma js_add_Num: "js_add (Num a) (Num b) = Num (a + b)"
  by (simp add: js_add_def)

lemma js_strict_eq_Str: "js_strict_eq v (Str s) = (v = Str s)"
  by (auto simp: js_strict_eq_def)

lemma purchaseProperty_unfold:
  "purchaseProperty c L name aadhar propertyId =
     (let userKey = User_makeKey [Str name, Str aadhar]
      in case (stored_user L userKey, stored_property L propertyId) of
           (Some user, Some property) \<Rightarrow>
             if obj_get property ''status'' = Str ''onSale'' then
               if js_ge (obj_get user ''upgradCoins'') (obj_get property ''price'') then
                 (case stored_user L (to_string (obj_get property ''owner'')) of
                    None \<Rightarrow> (L, Inl TypeError)
                  | Some oldOwner \<Rightarrow>
                      let price = obj_get property ''price'';
                          user1 = obj_set user ''upgradCoins'' (js_sub (obj_get user ''upgradCoins'') price);
                          oldOwner1 = obj_set oldOwner ''upgradCoins''
                                        (js_add (obj_get oldOwner ''upgradCoins'') price);
                          property2 = obj_set (obj_set property ''status'' (Str ''registered''))
                                        ''owner'' (Str userKey)
                      in (UserList_updateUser
                            (UserList_updateUser (PropertyList_updateProperty L property2) user1)
                            oldOwner1,
                          Inr ()))
               else (L, Inl (Error (''There are no sufficient funds for the user with name '' @ name
                                      @ '' and aadhar '' @ aadhar @ '' to purchase this property'')))
             else (L, Inl (Error (''The property with propertyId '' @ propertyId @ '' is not onSale'')))
         | _ \<Rightarrow> (L, Inl (Error (''There is no user with name '' @ name @ '' and aadhar '' @ aadhar
                                  @ '' exists '' @ [CHR 0x0A] @ '' OR '' @ [CHR 0x0A]
                                  @ '' There is no registered property with propertyId ''
                                  @ propertyId @ '' exists''))))"
  unfolding purchaseProperty_def Let_def getUser_any_key
  by (simp add: stored_user_def [symmetric] stored_property_def [symmetric] makeKey_single
      js_strict_eq_Str PROPERTY_STATUS_ON_SALE_def PROPERTY_STATUS_REGISTERED_def obj_get_set
      split: option.splits)

lemma getKey_obj_set:
  "k \<noteq> ''key'' \<Longrightarrow> User_getKey (obj_set u k v) = User_getKey u"
  by (simp add: User_getKey_def obj_get_set)

lemma stored_balance_updateUser:
  "entity u \<Longrightarrow> to_string (User_getKey u) = k \<Longrightarrow>
   stored_balance (UserList_updateUser L u) k = json_norm_value (obj_get u ''upgradCoins'')"
  by (simp add: stored_balance_def stored_user_updateUser obj_get_norm entity_distinct)

lemma entity_asha: "entity asha"
  by (simp add: entity_def asha_def)

lemma entity_plot: "entity plot"
  by (simp add: entity_def plot_def)

lemma norm_asha: "json_norm asha = asha"
  by (simp add: asha_def)

lemma norm_plot: "json_norm plot = plot"
  by (simp add: plot_def)

lemma sample_user: "stored_user ledger_on_sale ''asha:1111'' = Some asha"
  by (simp add: ledger_on_sale_def addUser_updateUser addProperty_updateProperty
      stored_user_updateProperty stored_user_updateUser entity_asha norm_asha)
     (simp add: asha_def User_getKey_def)

lemma sample_property: "stored_property ledger_on_sale ''P1'' = Some plot"
  by (simp add: ledger_on_sale_def addUser_updateUser addProperty_updateProperty
      stored_property_updateProperty entity_plot norm_plot)
     (simp add: plot_def Property_getKey_def)

section \<open>Properties of the operations\<close>

lemma obj_get_assign:
  "distinct (map fst src) \<Longrightarrow>
   obj_get (Object_assign t src) k = (if k \<in> set (map fst src) then obj_get src k else obj_get t k)"
proof (induction src arbitrary: t)
  case Nil
  then show ?case by (simp add: Object_assign_Nil)
next
  case (Cons p ps)
  obtain k' v where p: "p = (k', v)" by (cases p)
  from Cons.prems p have d: "distinct (map fst ps)" and n: "k' \<notin> set (map fst ps)" by auto
  show ?case
    unfolding p Object_assign_Cons
    using n by (auto simp: Cons.IH [OF d] obj_get_set)
qed

lemma stored_user_raw:
  "stored_user L k = (case JSON_parse (getState L (createCompositeKey user_namespace [Str k])) of
                        None \<Rightarrow> None | Some r \<Rightarrow> Some (User_new r))"
  by (simp add: stored_user_def UserList_getUser_def User_fromBuffer_def namespaces
      split: option.splits)

lemma stored_property_raw:
  "stored_property L k = (case JSON_parse (getState L (createCompositeKey property_namespace [Str k])) of
                        None \<Rightarrow> None | Some r \<Rightarrow> Some (Property_new r))"
  by (simp add: stored_property_def PropertyList_getProperty_def Property_fromBuffer_def namespaces
      split: option.splits)

lemma User_new_get:
  "distinct (map fst r) \<Longrightarrow>
   obj_get (User_new r) k =
     (if k \<in> set (map fst r) then obj_get r k
      else if k = ''key'' then Str (User_makeKey [obj_get r ''name'', obj_get r ''aadhar''])
      else Undefined)"
  by (simp add: User_new_def obj_get_assign)

lemma User_new_approved:
  assumes "distinct (map fst r)"
  shows "User_getKey (User_new (obj_set r ''upgradCoins'' (Num 0))) = User_getKey (User_new r)"
    and "obj_get (User_new (obj_set r ''upgradCoins'' (Num 0))) ''upgradCoins'' = Num 0"
  using assms
  by (simp_all add: User_getKey_def User_new_get distinct_obj_set map_fst_obj_set obj_get_set)

lemma user_key_sample: "User_makeKey [Str ''asha'', Str ''1111''] = ''asha:1111''"
  by (simp add: User_makeKey_def)

lemma ctx_sample: "getMSPID user_ctx = ''usersMSP''" "getMSPID registrar_ctx = ''registrarMSP''"
  by (simp_all add: getMSPID_def user_ctx_def registrar_ctx_def)

lemma getState_empty: "getState Map.empty k = []"
  by (simp add: getState_def)

lemma JSON_parse_empty: "JSON_parse [] = None"
  by (simp add: JSON_parse_def)

lemma clock_sample: "clock user_ctx = ''2020-05-01T10:00:00.000Z''"
  by (simp add: user_ctx_def)

lemma ledger_requested_eq:
  "ledger_requested =
     putState Map.empty (createCompositeKey UserList_name [Str ''asha:1111'']) (JSON_stringify asha_request)"
  by (simp add: ledger_requested_def requestNewUser_def ctx_sample user_key_sample getState_empty
      JSON_parse_empty namespaces asha_request_def clock_sample Let_def)

lemma parse_asha_request:
  "JSON_parse (JSON_stringify asha_request) = Some asha_request"
  by (simp add: JSON_parse_stringify asha_request_def)

lemma ledger_approved_eq:
  "ledger_approved =
     putState Map.empty (createCompositeKey UserList_name [Str ''asha:1111''])
       (JSON_stringify (obj_set asha ''upgradCoins'' (Num 0)))"
  apply (simp add: ledger_approved_def approveNewUserRequest_def ctx_sample user_key_sample
      ledger_requested_eq getState_putState namespaces parse_asha_request Let_def)
  apply (simp add: asha_request_def User_createInstance_def User_new_def Object_assign_def
      user_key_sample UserList_addUser_def User_getKey_def User_toBuffer_def asha_def putState_def)
  done

lemma valid_upg500: "literal_get VALID_TRANSACTIONS ''upg500'' = Num 500"
  by (simp add: literal_get_def VALID_TRANSACTIONS_def)

lemma asha_zero: "obj_set asha ''upgradCoins'' (Num 0) =
  [(''key'', Str ''asha:1111''), (''name'', Str ''asha''), (''email'', Str ''asha@x.in''),
   (''phone'', Str ''900''), (''aadhar'', Str ''1111''),
   (''createdAt'', Str ''2020-05-01T10:00:00.000Z''), (''upgradCoins'', Num 0)]"
  by (simp add: asha_def)

lemma stored_user_approved:
  "stored_user ledger_approved ''asha:1111'' = Some (obj_set asha ''upgradCoins'' (Num 0))"
  unfolding ledger_approved_eq asha_zero
  by (simp add: stored_user_def UserList_getUser_def getState_putState User_fromBuffer_def
      JSON_parse_stringify User_new_def Object_assign_def)

lemma ledger_funded_eq:
  "ledger_funded =
     putState Map.empty (createCompositeKey UserList_name [Str ''asha:1111'']) (JSON_stringify asha)"
  apply (simp add: ledger_funded_def rechargeAccount_def ctx_sample user_key_sample valid_upg500
      stored_user_def [symmetric] stored_user_approved Let_def)
  apply (simp add: ledger_approved_eq asha_def UserList_updateUser_def User_getKey_def
      User_toBuffer_def putState_def js_add_Num)
  done

lemma stored_user_funded: "stored_user ledger_funded ''asha:1111'' = Some asha"
  unfolding ledger_funded_eq
  by (simp add: stored_user_def UserList_getUser_def getState_putState User_fromBuffer_def
      JSON_parse_stringify User_new_def Object_assign_def asha_def)

lemma no_property_funded:
  "getState ledger_funded (createCompositeKey PropertyList_name [Str k]) = []"
  by (simp add: ledger_funded_eq getState_putState user_key_not_property_key [symmetric]
      getState_empty)

lemma ledger_plot_requested_eq:
  "ledger_plot_requested =
     putState ledger_funded (createCompositeKey PropertyList_name [Str ''P1''])
       (JSON_stringify [(''propertyId'', Str ''P1''), (''owner'', Str ''asha:1111''), (''price'', Num 300)])"
  by (simp add: ledger_plot_requested_def propertyRegistrationRequest_def ctx_sample
      user_key_sample makeKey_single namespaces stored_user_def [symmetric] stored_user_funded
      no_property_funded JSON_parse_empty Let_def)

lemma ledger_plot_registered_eq:
  "ledger_plot_registered =
     putState ledger_funded (createCompositeKey PropertyList_name [Str ''P1''])
       (JSON_stringify (obj_set plot ''status'' (Str ''registered'')))"
  apply (simp add: ledger_plot_registered_def approvePropertyRegistrationRequest_def ctx_sample
      makeKey_single namespaces ledger_plot_requested_eq getState_putState JSON_parse_stringify Let_def)
  apply (simp add: Property_createInstance_def Property_new_def Object_assign_def makeKey_single
      PropertyList_addProperty_def Property_getKey_def Property_toBuffer_def plot_def putState_def)
  done

lemma stored_property_registered:
  "stored_property ledger_plot_registered ''P1'' = Some (obj_set plot ''status'' (Str ''registered''))"
  unfolding ledger_plot_registered_eq
  by (simp add: stored_property_def PropertyList_getProperty_def getState_putState
      Property_fromBuffer_def JSON_parse_stringify Property_new_def Object_assign_def plot_def
      makeKey_single)

lemma history_on_sale_eq: "history_on_sale = ledger_on_sale"
  apply (simp add: history_on_sale_def updateProperty_def user_key_sample makeKey_single
      stored_property_def [symmetric] stored_property_registered Let_def)
  apply (simp add: plot_def js_strict_eq_Str PROPERTY_STATUS_ON_SALE_def PROPERTY_STATUS_REGISTERED_def)
  apply (simp add: ledger_on_sale_def ledger_plot_registered_eq ledger_funded_eq
      PropertyList_updateProperty_def PropertyList_addProperty_def UserList_addUser_def
      Property_getKey_def User_getKey_def Property_toBuffer_def User_toBuffer_def putState_def
      plot_def asha_def)
  done


lemma valid_transaction:
  assumes "(transactionID, Num n) \<in> set VALID_TRANSACTIONS"
  shows "literal_get VALID_TRANSACTIONS transactionID = Num n" and "n \<noteq> 0"
  using assms by (auto simp: VALID_TRANSACTIONS_def literal_get_def)

lemma rechargeAccount_found:
  assumes "getMSPID c = ''usersMSP''" "(transactionID, Num n) \<in> set VALID_TRANSACTIONS"
    and "stored_user L (User_makeKey [Str name, Str aadhar]) = Some u"
  shows "rechargeAccount c L name aadhar transactionID =
           (UserList_updateUser L (obj_set u ''upgradCoins'' (js_add (obj_get u ''upgradCoins'') (Num n))),
            Inr ())"
  using assms valid_transaction [OF assms(2)]
  by (simp add: rechargeAccount_def stored_user_def [symmetric] Let_def)

lemma recharge_approved_user:
  assumes usr: "getMSPID c = ''usersMSP''"
    and tid: "(transactionID, Num n) \<in> set VALID_TRANSACTIONS"
    and u: "stored_user L (User_makeKey [Str name, Str aadhar]) = Some u"
    and uk: "User_getKey u = Str (User_makeKey [Str name, Str aadhar])"
    and b: "obj_get u ''upgradCoins'' = Num b"
  shows "\<exists>L'. rechargeAccount c L name aadhar transactionID = (L', Inr ())
            \<and> stored_balance L' (User_makeKey [Str name, Str aadhar]) = Num (b + n)"
proof -
  let ?k = "User_makeKey [Str name, Str aadhar]"
  let ?u' = "obj_set u ''upgradCoins'' (Num (b + n))"
  have e: "entity ?u'" using stored_user_entity [OF u] by (simp add: entity_obj_set)
  have k: "to_string (User_getKey ?u') = ?k" by (simp add: getKey_obj_set uk)
  have "stored_balance (UserList_updateUser L ?u') ?k = Num (b + n)"
    by (simp add: stored_balance_updateUser [OF e k] obj_get_set)
  with rechargeAccount_found [OF usr tid u] show ?thesis by (simp add: b js_add_Num)
qed

lemma recharge_unknown_id:
  assumes "\<not> truthy (literal_get VALID_TRANSACTIONS transactionID)"
  shows "\<exists>e. rechargeAccount c L name aadhar transactionID = (L, Inl e)"
  using assms by (simp add: rechargeAccount_def)

lemma getKey_asha: "User_getKey asha = Str ''asha:1111''"
  by (simp add: asha_def User_getKey_def)

lemma stored_user_requested:
  "stored_user ledger_requested ''asha:1111'' = Some ((''key'', Str ''asha:1111'') # asha_request)"
  unfolding ledger_requested_eq
  by (simp add: stored_user_def UserList_getUser_def getState_putState User_fromBuffer_def
      parse_asha_request User_new_def)
     (simp add: asha_request_def Object_assign_def User_makeKey_def)

lemma show_int_0: "show_int 0 = ''0''"
  by code_simp

lemma inherited_toString:
  "literal_get VALID_TRANSACTIONS ''toString'' = Builtin ''function toString() { [native code] }''"
  by (simp add: literal_get_def VALID_TRANSACTIONS_def Object_prototype_def native_def)

lemma no_property_requested:
  "getState ledger_requested (createCompositeKey PropertyList_name [Str k]) = []"
  by (simp add: ledger_requested_eq getState_putState user_key_not_property_key [symmetric]
      getState_empty)

lemma purchaseProperty_success:
  assumes "stored_user L (User_makeKey [Str name, Str aadhar]) = Some u"
    and "stored_property L propertyId = Some p"
    and "obj_get p ''status'' = Str ''onSale''"
    and "js_ge (obj_get u ''upgradCoins'') (obj_get p ''price'')"
    and "stored_user L (to_string (obj_get p ''owner'')) = Some s"
  shows "purchaseProperty c L name aadhar propertyId =
           (UserList_updateUser
              (UserList_updateUser
                 (PropertyList_updateProperty L
                    (obj_set (obj_set p ''status'' (Str ''registered'')) ''owner''
                       (Str (User_makeKey [Str name, Str aadhar]))))
                 (obj_set u ''upgradCoins'' (js_sub (obj_get u ''upgradCoins'') (obj_get p ''price''))))
              (obj_set s ''upgradCoins'' (js_add (obj_get s ''upgradCoins'') (obj_get p ''price''))),
            Inr ())"
  using assms unfolding purchaseProperty_unfold by (simp add: Let_def)

lemma purchaseProperty_Inr:
  assumes "purchaseProperty c L name aadhar propertyId = (L', Inr r)"
  obtains u p s where
    "stored_user L (User_makeKey [Str name, Str aadhar]) = Some u"
    "stored_property L propertyId = Some p"
    "obj_get p ''status'' = Str ''onSale''"
    "js_ge (obj_get u ''upgradCoins'') (obj_get p ''price'')"
    "stored_user L (to_string (obj_get p ''owner'')) = Some s"
  using assms unfolding purchaseProperty_unfold
  by (auto simp: Let_def split: option.splits if_splits)







lemma keeps_purchaseProperty:
  "keeps_ledger_on_error L (purchaseProperty c L name aadhar propertyId)"
  unfolding purchaseProperty_unfold
  by (simp add: keeps_ledger_on_error_def Let_def split: option.splits)



lemma Property_getKey_obj_set:
  "k \<noteq> ''key'' \<Longrightarrow> Property_getKey (obj_set p k v) = Property_getKey p"
  by (simp add: Property_getKey_def obj_get_set)


lemma purchase_distinct_keys:
  assumes u: "stored_user L (User_makeKey [Str name, Str aadhar]) = Some u"
    and uk: "User_getKey u = Str (User_makeKey [Str name, Str aadhar])"
    and b: "obj_get u ''upgradCoins'' = Num b"
    and p: "stored_property L propertyId = Some p"
    and own: "obj_get p ''owner'' = Str sellerKey"
    and st: "obj_get p ''status'' = Str ''onSale''"
    and pr: "obj_get p ''price'' = Num price"
    and s: "stored_user L sellerKey = Some s"
    and sk: "User_getKey s = Str sellerKey"
    and sb: "obj_get s ''upgradCoins'' = Num sb"
    and ne: "sellerKey \<noteq> User_makeKey [Str name, Str aadhar]"
    and le: "price \<le> b"
  shows "\<exists>L'. purchaseProperty c L name aadhar propertyId = (L', Inr ())
            \<and> stored_balance L' (User_makeKey [Str name, Str aadhar]) = Num (b - price)
            \<and> stored_balance L' sellerKey = Num (sb + price)"
proof -
  let ?k = "User_makeKey [Str name, Str aadhar]"
  let ?u1 = "obj_set u ''upgradCoins'' (Num (b - price))"
  let ?s1 = "obj_set s ''upgradCoins'' (Num (sb + price))"
  have eu: "entity ?u1" using stored_user_entity [OF u] by (simp add: entity_obj_set)
  have es: "entity ?s1" using stored_user_entity [OF s] by (simp add: entity_obj_set)
  have ku: "to_string (User_getKey ?u1) = ?k" by (simp add: getKey_obj_set uk)
  have ks: "to_string (User_getKey ?s1) = sellerKey" by (simp add: getKey_obj_set sk)
  have ge: "js_ge (obj_get u ''upgradCoins'') (obj_get p ''price'')" by (simp add: b pr js_ge_Num le)
  have s': "stored_user L (to_string (obj_get p ''owner'')) = Some s" by (simp add: own s)
  have nk: "?k \<noteq> sellerKey" using ne by simp
  show ?thesis
    unfolding purchaseProperty_success [OF u p st ge s']
    by (simp add: b pr sb js_sub_Num js_add_Num stored_balance_updateUser [OF es ks]
        stored_balance_def stored_user_updateUser [OF es] stored_user_updateUser [OF eu]
        ks ku nk ne obj_get_norm entity_distinct [OF eu] entity_distinct [OF es] obj_get_set)
qed

lemma purchase_conserves_distinct_keys:
  assumes "stored_user L (User_makeKey [Str name, Str aadhar]) = Some u"
    and "User_getKey u = Str (User_makeKey [Str name, Str aadhar])"
    and "obj_get u ''upgradCoins'' = Num b"
    and "stored_property L propertyId = Some p"
    and "obj_get p ''owner'' = Str sellerKey"
    and "obj_get p ''status'' = Str ''onSale''"
    and "obj_get p ''price'' = Num price"
    and "stored_user L sellerKey = Some s"
    and "User_getKey s = Str sellerKey"
    and "obj_get s ''upgradCoins'' = Num sb"
    and "sellerKey \<noteq> User_makeKey [Str name, Str aadhar]"
    and "price \<le> b"
  shows "\<exists>L'. purchaseProperty c L name aadhar propertyId = (L', Inr ())
            \<and> js_add (stored_balance L' (User_makeKey [Str name, Str aadhar])) (stored_balance L' sellerKey)
              = js_add (stored_balance L (User_makeKey [Str name, Str aadhar])) (stored_balance L sellerKey)"
proof -
  from purchase_distinct_keys [OF assms, of c] obtain L' where
    "purchaseProperty c L name aadhar propertyId = (L', Inr ())"
    "stored_balance L' (User_makeKey [Str name, Str aadhar]) = Num (b - price)"
    "stored_balance L' sellerKey = Num (sb + price)" by blast
  moreover have "stored_balance L (User_makeKey [Str name, Str aadhar]) = Num b"
    "stored_balance L sellerKey = Num sb"
    using assms by (simp_all add: stored_balance_def)
  ultimately show ?thesis by (simp add: js_add_Num)
qed

lemma text_price:
  "js_ge (Num 500) (Str ''300'')
   \<and> js_sub (Num 500) (Str ''300'') = Num 200
   \<and> js_add (Num 500) (Str ''300'') = Str ''500300''"
  by code_simp

lemma unauthorized_requestNewUser:
  "getMSPID c \<noteq> ''usersMSP'' \<Longrightarrow>
   requestNewUser c L name email phone aadhar
     = (L, Inl (Error ''Only users should be allowed to raise a new user request''))"
  by (simp add: requestNewUser_def)

lemma unauthorized_rechargeAccount:
  "getMSPID c \<noteq> ''usersMSP'' \<Longrightarrow>
   rechargeAccount c L name aadhar transactionID
     = (L, Inl (Error ''Only users should be allowed to recharge accounts''))"
  by (simp add: rechargeAccount_def)

lemma unauthorized_propertyRegistrationRequest:
  "getMSPID c \<noteq> ''usersMSP'' \<Longrightarrow>
   propertyRegistrationRequest c L name aadhar propertyId price
     = (L, Inl (Error ''Only users should be used to raise property registration request''))"
  by (simp add: propertyRegistrationRequest_def)

lemma unauthorized_approveNewUserRequest:
  "getMSPID c \<noteq> ''registrarMSP'' \<Longrightarrow>
   approveNewUserRequest c L name aadhar
     = (L, Inl (Error ''Registrar's can only approve new user request''))"
  by (simp add: approveNewUserRequest_def)

lemma unauthorized_approvePropertyRegistrationRequest:
  "getMSPID c \<noteq> ''registrarMSP'' \<Longrightarrow>
   approvePropertyRegistrationRequest c L propertyId
     = (L, Inl (Error ''Registrar's can only approve property registration request''))"
  by (simp add: approvePropertyRegistrationRequest_def)

lemma caller_ignored:
  "purchaseProperty c L name aadhar propertyId = purchaseProperty c' L name aadhar propertyId"
  "updateProperty c L name aadhar propertyId status = updateProperty c' L name aadhar propertyId status"
  by (simp_all add: purchaseProperty_def updateProperty_def)

lemma sample_purchase:
  "purchaseProperty c ledger_on_sale ''asha'' ''1111'' ''P1'' =
     (UserList_updateUser
        (UserList_updateUser
           (PropertyList_updateProperty ledger_on_sale (obj_set plot ''status'' (Str ''registered'')))
           (obj_set asha ''upgradCoins'' (Num 200)))
        (obj_set asha ''upgradCoins'' (Num 800)),
      Inr ())"
proof -
  have u: "stored_user ledger_on_sale (User_makeKey [Str ''asha'', Str ''1111'']) = Some asha"
    by (simp add: user_key_sample sample_user)
  have st: "obj_get plot ''status'' = Str ''onSale''" by (simp add: plot_def)
  have ge: "js_ge (obj_get asha ''upgradCoins'') (obj_get plot ''price'')"
    by (simp add: asha_def plot_def js_ge_Num)
  have s: "stored_user ledger_on_sale (to_string (obj_get plot ''owner'')) = Some asha"
    by (simp add: plot_def sample_user)
  show ?thesis
    unfolding purchaseProperty_success [OF u sample_property st ge s]
    by (simp add: user_key_sample) (simp add: plot_def asha_def js_sub_Num js_add_Num)
qed

lemma sample_balance_after_purchase:
  "stored_balance (fst (purchaseProperty c ledger_on_sale ''asha'' ''1111'' ''P1'')) ''asha:1111''
     = Num 800"
proof -
  let ?s = "obj_set asha ''upgradCoins'' (Num 800)"
  have e: "entity ?s" by (simp add: entity_obj_set entity_asha)
  have k: "to_string (User_getKey ?s) = ''asha:1111''" by (simp add: getKey_obj_set getKey_asha)
  show ?thesis
    unfolding sample_purchase by (simp add: stored_balance_updateUser [OF e k] obj_get_set)
qed

lemma sample_purchase_ok: "snd (purchaseProperty c ledger_on_sale ''asha'' ''1111'' ''P1'') = Inr ()"
  by (simp add: sample_purchase)

lemma sample_balance: "stored_balance ledger_on_sale ''asha:1111'' = Num 500"
  by (simp add: stored_balance_def sample_user asha_def)

lemma new_without_key:
  assumes "distinct (map fst r)" "''key'' \<notin> set (map fst r)"
  shows "Object_assign [(''key'', x)] r = (''key'', x) # r"
  using Object_assign_fresh [of "[(''key'', x)]" r] assms by simp

lemma viewProperty_unreadable:
  assumes "JSON_parse (getState L (createCompositeKey PropertyList_name [Str propertyId])) = None"
  shows "viewProperty c L propertyId
           = (L, Inl (Error (''There is no registered property with propertyId '' @ propertyId
                              @ '' exists'')))"
  using assms
  by (simp add: viewProperty_def makeKey_single stored_property_def [symmetric]
      stored_property_raw namespaces Let_def)




lemma stranger: "getMSPID stranger_ctx \<noteq> ''usersMSP''" "getMSPID stranger_ctx \<noteq> ''registrarMSP''"
  by (simp_all add: getMSPID_def stranger_ctx_def)


lemma updateProperty_not_owner:
  assumes "stored_property L propertyId = Some p"
    and "obj_get p ''owner'' \<noteq> Str (User_makeKey [Str name, Str aadhar])"
  shows "updateProperty c L name aadhar propertyId status
           = (L, Inl (Error ''Only authorized users can update the value of this property''))"
  using assms
  by (simp add: updateProperty_def makeKey_single stored_property_def [symmetric] Let_def
      js_strict_eq_Str)

lemma own_keys_empty: "own_keys Map.empty"
  by (simp add: own_keys_def stored_user_raw stored_property_raw getState_empty JSON_parse_empty)

lemma stored_user_putState_user:
  "distinct (map fst obj) \<Longrightarrow>
   stored_user (putState L (createCompositeKey UserList_name [Str k0]) (JSON_stringify obj)) k =
     (if k = k0 then Some (User_new (json_norm obj)) else stored_user L k)"
  by (simp add: stored_user_raw namespaces getState_putState composite_key_eq JSON_parse_stringify)

lemma stored_user_putState_property:
  "stored_user (putState L (createCompositeKey PropertyList_name [a]) b) k = stored_user L k"
  by (simp add: stored_user_raw namespaces getState_putState user_key_not_property_key)

lemma stored_property_putState_property:
  "distinct (map fst obj) \<Longrightarrow>
   stored_property (putState L (createCompositeKey PropertyList_name [Str k0]) (JSON_stringify obj)) k =
     (if k = k0 then Some (Property_new (json_norm obj)) else stored_property L k)"
  by (simp add: stored_property_raw namespaces getState_putState composite_key_eq
      JSON_parse_stringify)

lemma stored_property_putState_user:
  "stored_property (putState L (createCompositeKey UserList_name [a]) b) k = stored_property L k"
  by (simp add: stored_property_raw namespaces getState_putState
      user_key_not_property_key [symmetric])

lemma Property_new_get:
  "distinct (map fst r) \<Longrightarrow>
   obj_get (Property_new r) k =
     (if k \<in> set (map fst r) then obj_get r k
      else if k = ''key'' then Str (Property_makeKey [obj_get r ''propertyId''])
      else Undefined)"
  by (simp add: Property_new_def obj_get_assign)

lemma own_keys_updateUser:
  assumes "own_keys L" "entity u" "User_getKey u = Str k0"
  shows "own_keys (UserList_updateUser L u)"
  using assms
  by (auto simp: own_keys_def stored_user_updateUser stored_property_updateUser User_getKey_def
      obj_get_norm entity_distinct split: if_splits)

lemma own_keys_updateProperty:
  assumes "own_keys L" "entity p" "Property_getKey p = Str k0"
  shows "own_keys (PropertyList_updateProperty L p)"
  using assms
  by (auto simp: own_keys_def stored_property_updateProperty stored_user_updateProperty
      Property_getKey_def obj_get_norm entity_distinct split: if_splits)

lemma own_keys_requestNewUser:
  assumes "own_keys L"
  shows "own_keys (fst (requestNewUser c L name email phone aadhar))"
proof -
  let ?obj = "[(''name'', Str name), (''email'', Str email), (''phone'', Str phone),
               (''aadhar'', Str aadhar), (''createdAt'', Str (clock c))]"
  let ?k = "User_makeKey [Str name, Str aadhar]"
  have d: "distinct (map fst ?obj)" by simp
  have n: "json_norm ?obj = ?obj" by simp
  have g: "User_getKey (User_new ?obj) = Str ?k"
    by (simp add: User_getKey_def User_new_get)
  have "own_keys (putState L (createCompositeKey UserList_name [Str ?k]) (JSON_stringify ?obj))"
    using assms unfolding own_keys_def
    by (simp only: stored_user_putState_user [OF d] stored_property_putState_user n)
       (auto simp: g split: if_splits)
  then show ?thesis using assms
    by (simp add: requestNewUser_def Let_def namespaces split: option.splits)
qed

lemma own_keys_rechargeAccount:
  assumes "own_keys L"
  shows "own_keys (fst (rechargeAccount c L name aadhar transactionID))"
proof -
  have "own_keys (UserList_updateUser L (obj_set u ''upgradCoins'' x))"
    if "stored_user L (User_makeKey [Str name, Str aadhar]) = Some u" for u x
  proof (rule own_keys_updateUser [OF assms])
    show "entity (obj_set u ''upgradCoins'' x)"
      using stored_user_entity [OF that] by (simp add: entity_obj_set)
    show "User_getKey (obj_set u ''upgradCoins'' x) = Str (User_makeKey [Str name, Str aadhar])"
      using assms that by (simp add: getKey_obj_set own_keys_def)
  qed
  then show ?thesis using assms
    by (simp add: rechargeAccount_def Let_def stored_user_def [symmetric] split: option.splits)
qed

lemma own_keys_propertyRegistrationRequest:
  assumes "own_keys L"
  shows "own_keys (fst (propertyRegistrationRequest c L name aadhar propertyId price))"
proof -
  let ?obj = "[(''propertyId'', Str propertyId),
               (''owner'', Str (User_makeKey [Str name, Str aadhar])), (''price'', price)]"
  have d: "distinct (map fst ?obj)" by simp
  have dn: "distinct (map fst (json_norm ?obj))" by (rule distinct_norm [OF d])
  have nk: "''key'' \<notin> set (map fst (json_norm ?obj))"
    by (cases price) auto
  have pid: "obj_get (json_norm ?obj) ''propertyId'' = Str propertyId"
    unfolding obj_get_norm [OF d] by simp
  have "obj_get (Property_new (json_norm ?obj)) ''key''
          = Str (Property_makeKey [obj_get (json_norm ?obj) ''propertyId''])"
    unfolding Property_new_get [OF dn] using nk by (simp only: if_False if_True refl)
  then have g: "Property_getKey (Property_new (json_norm ?obj)) = Str propertyId"
    by (simp only: Property_getKey_def pid makeKey_single)
  have "own_keys (putState L (createCompositeKey PropertyList_name [Str propertyId])
                    (JSON_stringify ?obj))"
    using assms unfolding own_keys_def
    by (simp only: stored_property_putState_property [OF d] stored_user_putState_property)
       (auto simp: g simp del: json_norm.simps split: if_splits)
  then show ?thesis using assms
    by (simp add: propertyRegistrationRequest_def Let_def namespaces makeKey_single
        split: option.splits)
qed

lemma own_keys_updateProperty_op:
  assumes "own_keys L"
  shows "own_keys (fst (updateProperty c L name aadhar propertyId status))"
proof -
  have "own_keys (PropertyList_updateProperty L (obj_set p ''status'' x))"
    if "stored_property L propertyId = Some p" for p x
  proof (rule own_keys_updateProperty [OF assms])
    show "entity (obj_set p ''status'' x)"
      using stored_property_entity [OF that] by (simp add: entity_obj_set)
    show "Property_getKey (obj_set p ''status'' x) = Str propertyId"
      using assms that by (simp add: Property_getKey_obj_set own_keys_def)
  qed
  then show ?thesis using assms
    by (simp add: updateProperty_def Let_def stored_property_def [symmetric] makeKey_single
        split: option.splits)
qed

lemma own_keys_purchaseProperty:
  assumes "own_keys L"
  shows "own_keys (fst (purchaseProperty c L name aadhar propertyId))"
proof (cases "snd (purchaseProperty c L name aadhar propertyId)")
  case (Inl e)
  with keeps_purchaseProperty [of L c name aadhar propertyId] assms show ?thesis
    by (simp add: keeps_ledger_on_error_def)
next
  case (Inr r)
  then have ok: "purchaseProperty c L name aadhar propertyId
                   = (fst (purchaseProperty c L name aadhar propertyId), Inr r)"
    by (simp add: prod_eq_iff)
  let ?k = "User_makeKey [Str name, Str aadhar]"
  from ok obtain u p s where
    u: "stored_user L ?k = Some u"
    and p: "stored_property L propertyId = Some p"
    and st: "obj_get p ''status'' = Str ''onSale''"
    and ge: "js_ge (obj_get u ''upgradCoins'') (obj_get p ''price'')"
    and s: "stored_user L (to_string (obj_get p ''owner'')) = Some s"
    by (rule purchaseProperty_Inr)
  let ?p2 = "obj_set (obj_set p ''status'' (Str ''registered'')) ''owner'' (Str ?k)"
  let ?u1 = "obj_set u ''upgradCoins'' (js_sub (obj_get u ''upgradCoins'') (obj_get p ''price''))"
  let ?s1 = "obj_set s ''upgradCoins'' (js_add (obj_get s ''upgradCoins'') (obj_get p ''price''))"
  have 1: "own_keys (PropertyList_updateProperty L ?p2)"
  proof (rule own_keys_updateProperty [OF assms])
    show "entity ?p2" using stored_property_entity [OF p] by (simp add: entity_obj_set)
    show "Property_getKey ?p2 = Str propertyId"
      using assms p by (simp add: Property_getKey_obj_set own_keys_def)
  qed
  have 2: "own_keys (UserList_updateUser (PropertyList_updateProperty L ?p2) ?u1)"
  proof (rule own_keys_updateUser [OF 1])
    show "entity ?u1" using stored_user_entity [OF u] by (simp add: entity_obj_set)
    show "User_getKey ?u1 = Str ?k" using assms u by (simp add: getKey_obj_set own_keys_def)
  qed
  have 3: "own_keys (UserList_updateUser (UserList_updateUser (PropertyList_updateProperty L ?p2) ?u1) ?s1)"
  proof (rule own_keys_updateUser [OF 2])
    show "entity ?s1" using stored_user_entity [OF s] by (simp add: entity_obj_set)
    show "User_getKey ?s1 = Str (to_string (obj_get p ''owner''))"
      using assms s by (simp add: getKey_obj_set own_keys_def)
  qed
  show ?thesis
    unfolding purchaseProperty_success [OF u p st ge s] using 3 by simp
qed

lemma own_keys_approveNewUserRequest:
  assumes "own_keys L"
  shows "own_keys (fst (approveNewUserRequest c L name aadhar))"
proof -
  let ?k = "User_makeKey [Str name, Str aadhar]"
  have "own_keys (UserList_updateUser L (User_new (obj_set r ''upgradCoins'' (Num 0))))"
    if r: "JSON_parse (getState L (createCompositeKey user_namespace [Str ?k])) = Some r" for r
  proof (rule own_keys_updateUser [OF assms])
    from JSON_parse_inv [OF r] have d: "distinct (map fst r)" and pl: "plain r" by simp_all
    show "entity (User_new (obj_set r ''upgradCoins'' (Num 0)))"
      unfolding User_new_def by (simp add: entity_new distinct_obj_set plain_obj_set d pl)
    have "stored_user L ?k = Some (User_new r)" by (simp add: stored_user_raw r)
    with assms have "User_getKey (User_new r) = Str ?k" by (simp add: own_keys_def)
    then show "User_getKey (User_new (obj_set r ''upgradCoins'' (Num 0))) = Str ?k"
      by (simp add: User_new_approved(1) [OF d])
  qed
  then show ?thesis using assms
    by (simp add: approveNewUserRequest_def Let_def User_createInstance_def addUser_updateUser
        split: option.splits)
qed

lemma Property_new_registered:
  assumes "distinct (map fst r)"
  shows "Property_getKey (Property_new (obj_set r ''status'' v)) = Property_getKey (Property_new r)"
  using assms
  by (simp add: Property_getKey_def Property_new_get distinct_obj_set map_fst_obj_set obj_get_set)

lemma own_keys_approvePropertyRegistrationRequest:
  assumes "own_keys L"
  shows "own_keys (fst (approvePropertyRegistrationRequest c L propertyId))"
proof -
  have "own_keys (PropertyList_updateProperty L (Property_new (obj_set r ''status'' (Str ''registered''))))"
    if r: "JSON_parse (getState L (createCompositeKey property_namespace [Str propertyId])) = Some r"
    for r
  proof (rule own_keys_updateProperty [OF assms])
    from JSON_parse_inv [OF r] have d: "distinct (map fst r)" and pl: "plain r" by simp_all
    show "entity (Property_new (obj_set r ''status'' (Str ''registered'')))"
      unfolding Property_new_def by (simp add: entity_new distinct_obj_set plain_obj_set d pl)
    have "stored_property L propertyId = Some (Property_new r)" by (simp add: stored_property_raw r)
    with assms have "Property_getKey (Property_new r) = Str propertyId" by (simp add: own_keys_def)
    then show "Property_getKey (Property_new (obj_set r ''status'' (Str ''registered''))) = Str propertyId"
      by (simp add: Property_new_registered [OF d])
  qed
  then show ?thesis using assms
    by (simp add: approvePropertyRegistrationRequest_def Let_def Property_createInstance_def
        addProperty_updateProperty makeKey_single split: option.splits)
qed

lemma reachable_own_keys: "reachable L \<Longrightarrow> own_keys L"
  by (induction rule: reachable.induct)
     (simp_all add: own_keys_empty own_keys_requestNewUser own_keys_rechargeAccount
        own_keys_propertyRegistrationRequest own_keys_updateProperty_op own_keys_purchaseProperty
        own_keys_approveNewUserRequest own_keys_approvePropertyRegistrationRequest)

lemma sample_reachable:
  "reachable ledger_requested" "reachable ledger_approved" "reachable history_on_sale"
  "reachable ledger_on_sale"
proof -
  show 1: "reachable ledger_requested"
    unfolding ledger_requested_def by (intro reachable.intros)
  show 2: "reachable ledger_approved"
    unfolding ledger_approved_def by (intro reachable.approveNewUserRequest 1)
  have 3: "reachable ledger_funded"
    unfolding ledger_funded_def by (intro reachable.rechargeAccount 2)
  have 4: "reachable ledger_plot_requested"
    unfolding ledger_plot_requested_def by (intro reachable.propertyRegistrationRequest 3)
  have 5: "reachable ledger_plot_registered"
    unfolding ledger_plot_registered_def by (intro reachable.approvePropertyRegistrationRequest 4)
  show 6: "reachable history_on_sale"
    unfolding history_on_sale_def by (intro reachable.updateProperty 5)
  show "reachable ledger_on_sale"
    using 6 by (simp add: history_on_sale_eq)
qed

section \<open>The claims\<close>

text \<open>
  Claim C1. A successful \<open>purchaseProperty\<close> conserves the sum of the stored balances of
  buyer and seller, also when the buyer's key equals the seller's key.

  The code does not do this when buyer and seller are the same user. On the ledger that
  the contract functions build (request, approval, recharge of 500, registration of plot
  \<open>P1\<close> at price 300, approval, \<open>onSale\<close>), the owner \<open>asha:1111\<close> buys her own plot:
  the call succeeds, and her stored balance goes from 500 to 800, so the sum over buyer
  and seller goes from 1000 to 1600. For two different users, with numbers as balances and
  price, the sum is conserved (\<open>purchase_conserves_distinct_keys\<close>). A price that was
  stored as text is subtracted as a number but appended as text (\<open>text_price\<close>).
\<close>

theorem purchase_by_owner_creates_coins:
  "stored_property history_on_sale ''P1'' = Some plot
   \<and> obj_get plot ''owner'' = Str (User_makeKey [Str ''asha'', Str ''1111''])
   \<and> snd (purchaseProperty user_ctx history_on_sale ''asha'' ''1111'' ''P1'') = Inr ()
   \<and> js_add (stored_balance history_on_sale ''asha:1111'') (stored_balance history_on_sale ''asha:1111'')
       = Num 1000
   \<and> js_add (stored_balance (fst (purchaseProperty user_ctx history_on_sale ''asha'' ''1111'' ''P1''))
                ''asha:1111'')
             (stored_balance (fst (purchaseProperty user_ctx history_on_sale ''asha'' ''1111'' ''P1''))
                ''asha:1111'')
       = Num 1600"
  unfolding history_on_sale_eq
  by (simp add: sample_property sample_balance sample_balance_after_purchase js_add_Num
      user_key_sample sample_purchase_ok)
     (simp add: plot_def)

text \<open>
  Claim C2, as amended. \<open>requestNewUser\<close>, \<open>rechargeAccount\<close> and
  \<open>propertyRegistrationRequest\<close> reject every caller whose organisation is not
  \<open>usersMSP\<close>, and \<open>approveNewUserRequest\<close> and \<open>approvePropertyRegistrationRequest\<close>
  every caller whose organisation is not \<open>registrarMSP\<close>: the outcome is the
  authorization error whatever the ledger holds, and the ledger is unchanged.
  \<open>updateProperty\<close> does not look at the organisation; it rejects, with its own
  authorization error and with the ledger unchanged, every call whose \<open>name:aadhar\<close> is
  not the stored owner of the property.
\<close>

theorem organisation_checked_first:
  "(getMSPID c \<noteq> ''usersMSP'' \<longrightarrow>
      requestNewUser c L name email phone aadhar
        = (L, Inl (Error ''Only users should be allowed to raise a new user request''))
      \<and> rechargeAccount c L name aadhar transactionID
        = (L, Inl (Error ''Only users should be allowed to recharge accounts''))
      \<and> propertyRegistrationRequest c L name aadhar propertyId price
        = (L, Inl (Error ''Only users should be used to raise property registration request'')))
   \<and> (getMSPID c \<noteq> ''registrarMSP'' \<longrightarrow>
      approveNewUserRequest c L name aadhar
        = (L, Inl (Error ''Registrar's can only approve new user request''))
      \<and> approvePropertyRegistrationRequest c L propertyId
        = (L, Inl (Error ''Registrar's can only approve property registration request'')))
   \<and> (stored_property L propertyId = Some p
        \<and> obj_get p ''owner'' \<noteq> Str (User_makeKey [Str name, Str aadhar]) \<longrightarrow>
      updateProperty c L name aadhar propertyId status
        = (L, Inl (Error ''Only authorized users can update the value of this property'')))"
  using unauthorized_requestNewUser [of c L name email phone aadhar]
    unauthorized_rechargeAccount [of c L name aadhar transactionID]
    unauthorized_propertyRegistrationRequest [of c L name aadhar propertyId price]
    unauthorized_approveNewUserRequest [of c L name aadhar]
    unauthorized_approvePropertyRegistrationRequest [of c L propertyId]
    updateProperty_not_owner [of L propertyId p name aadhar c status]
  by blast

theorem organisation_checked_first_witness:
  "getMSPID stranger_ctx \<noteq> ''usersMSP''
   \<and> getMSPID stranger_ctx \<noteq> ''registrarMSP''
   \<and> stored_property ledger_on_sale ''P1'' = Some plot
   \<and> obj_get plot ''owner'' \<noteq> Str (User_makeKey [Str ''ravi'', Str ''2222''])
   \<and> requestNewUser stranger_ctx ledger_on_sale ''ravi'' ''ravi@x.in'' ''901'' ''2222''
       = (ledger_on_sale, Inl (Error ''Only users should be allowed to raise a new user request''))
   \<and> rechargeAccount stranger_ctx ledger_on_sale ''ravi'' ''2222'' ''upg100''
       = (ledger_on_sale, Inl (Error ''Only users should be allowed to recharge accounts''))
   \<and> propertyRegistrationRequest stranger_ctx ledger_on_sale ''ravi'' ''2222'' ''P1'' (Num 300)
       = (ledger_on_sale,
          Inl (Error ''Only users should be used to raise property registration request''))
   \<and> approveNewUserRequest stranger_ctx ledger_on_sale ''ravi'' ''2222''
       = (ledger_on_sale, Inl (Error ''Registrar's can only approve new user request''))
   \<and> approvePropertyRegistrationRequest stranger_ctx ledger_on_sale ''P1''
       = (ledger_on_sale,
          Inl (Error ''Registrar's can only approve property registration request''))
   \<and> updateProperty stranger_ctx ledger_on_sale ''ravi'' ''2222'' ''P1'' ''registered''
       = (ledger_on_sale,
          Inl (Error ''Only authorized users can update the value of this property''))"
proof -
  have h1: "getMSPID stranger_ctx \<noteq> ''usersMSP''" by (rule stranger)
  have h2: "getMSPID stranger_ctx \<noteq> ''registrarMSP''" by (rule stranger)
  have h3: "stored_property ledger_on_sale ''P1'' = Some plot" by (rule sample_property)
  have h4: "obj_get plot ''owner'' \<noteq> Str (User_makeKey [Str ''ravi'', Str ''2222''])"
    by (simp add: plot_def User_makeKey_def)
  from organisation_checked_first
         [of stranger_ctx ledger_on_sale "''ravi''" "''ravi@x.in''" "''901''" "''2222''"
             "''upg100''" "''P1''" "Num 300" plot "''registered''"]
       h1 h2 h3 h4
  show ?thesis by blast
qed

text \<open>
  Claim C2 as stated asks the organisation check of all seven mutating operations.
  \<open>updateProperty\<close> and \<open>purchaseProperty\<close> never look at the caller
  (\<open>caller_ignored\<close>): invoked by the registrar's organisation on the ledger that the
  contract functions build, \<open>updateProperty\<close> succeeds for the owner's \<open>name:aadhar\<close>
  and changes the stored status, and \<open>purchaseProperty\<close> succeeds and changes the stored
  balance.
\<close>

theorem registrar_may_purchase_and_update:
  "getMSPID registrar_ctx \<noteq> ''usersMSP''
   \<and> stored_balance history_on_sale ''asha:1111'' = Num 500
   \<and> snd (purchaseProperty registrar_ctx history_on_sale ''asha'' ''1111'' ''P1'') = Inr ()
   \<and> stored_balance (fst (purchaseProperty registrar_ctx history_on_sale ''asha'' ''1111'' ''P1''))
        ''asha:1111'' = Num 800
   \<and> obj_get plot ''status'' = Str ''onSale''
   \<and> stored_property history_on_sale ''P1'' = Some plot
   \<and> snd (updateProperty registrar_ctx history_on_sale ''asha'' ''1111'' ''P1'' ''registered'') = Inr ()
   \<and> stored_property
         (fst (updateProperty registrar_ctx history_on_sale ''asha'' ''1111'' ''P1'' ''registered''))
         ''P1''
       = Some (obj_set plot ''status'' (Str ''registered''))"
proof -
  let ?p = "obj_set plot ''status'' (Str ''registered'')"
  have e: "entity ?p" by (simp add: entity_obj_set entity_plot)
  have k: "to_string (Property_getKey ?p) = ''P1''" by (simp add: plot_def Property_getKey_def)
  have n: "json_norm ?p = ?p" by (simp add: plot_def)
  have up: "updateProperty registrar_ctx ledger_on_sale ''asha'' ''1111'' ''P1'' ''registered''
              = (PropertyList_updateProperty ledger_on_sale ?p, Inr ())"
    by (simp add: updateProperty_def user_key_sample makeKey_single stored_property_def [symmetric]
        sample_property Let_def PROPERTY_STATUS_REGISTERED_def js_strict_eq_Str)
       (simp add: plot_def)
  show ?thesis
    unfolding history_on_sale_eq
    by (simp add: ctx_sample sample_balance sample_purchase_ok sample_balance_after_purchase
        sample_property up stored_property_updateProperty [OF e] k n)
       (simp add: plot_def)
qed

text \<open>
  Claim C3. \<open>propertyRegistrationRequest\<close> fails and writes no property when the user
  record at the caller's key exists but is not approved (it has no \<open>upgradCoins\<close>).

  The code only tests that a user record was found. On the ledger after \<open>requestNewUser\<close>
  alone, where the user is still waiting for approval, the request for plot \<open>P1\<close>
  succeeds and the property record is stored.
\<close>

theorem property_request_by_pending_user:
  "stored_balance ledger_requested ''asha:1111'' = Undefined
   \<and> stored_property ledger_requested ''P1'' = None
   \<and> snd (propertyRegistrationRequest user_ctx ledger_requested ''asha'' ''1111'' ''P1'' (Num 300))
       = Inr [(''propertyId'', Str ''P1''), (''owner'', Str ''asha:1111''), (''price'', Num 300)]
   \<and> stored_property
         (fst (propertyRegistrationRequest user_ctx ledger_requested ''asha'' ''1111'' ''P1'' (Num 300)))
         ''P1''
       = Some [(''key'', Str ''P1''), (''propertyId'', Str ''P1''), (''owner'', Str ''asha:1111''),
               (''price'', Num 300)]"
proof -
  let ?p = "[(''propertyId'', Str ''P1''), (''owner'', Str ''asha:1111''), (''price'', Num 300)]"
  have a: "stored_balance ledger_requested ''asha:1111'' = Undefined"
    by (simp add: stored_balance_def stored_user_requested asha_request_def)
  have b: "stored_property ledger_requested ''P1'' = None"
    by (simp add: stored_property_raw namespaces no_property_requested JSON_parse_empty)
  have r: "propertyRegistrationRequest user_ctx ledger_requested ''asha'' ''1111'' ''P1'' (Num 300)
             = (putState ledger_requested (createCompositeKey PropertyList_name [Str ''P1''])
                  (JSON_stringify ?p), Inr ?p)"
    by (simp add: propertyRegistrationRequest_def ctx_sample user_key_sample makeKey_single
        namespaces no_property_requested JSON_parse_empty stored_user_def [symmetric]
        stored_user_requested Let_def)
  have c: "stored_property
             (putState ledger_requested (createCompositeKey PropertyList_name [Str ''P1''])
                (JSON_stringify ?p)) ''P1''
           = Some [(''key'', Str ''P1''), (''propertyId'', Str ''P1''), (''owner'', Str ''asha:1111''),
                   (''price'', Num 300)]"
    by (simp add: stored_property_raw namespaces getState_putState JSON_parse_stringify
        Property_new_def Object_assign_def makeKey_single)
  show ?thesis using a b c by (simp add: r)
qed

text \<open>
  Claim C4, as amended. For every entity that the \<open>User\<close> or \<open>Property\<close> constructor
  builds, decoding the buffer that \<open>toBuffer\<close> writes gives the entity back (as JSON reads
  it) and encoding that again reproduces the buffer. A record without the \<open>key\<close>
  property decodes to the record with the key put in front. Decoding the empty buffer of an
  absent key fails with the parser's \<open>SyntaxError\<close>, and so does decoding any bytes the
  parser rejects: the two results are the same, and \<open>viewProperty\<close> answers both with its
  one error.
\<close>

theorem codec_round_trip:
  assumes "entity e"
  shows "User_fromBuffer (User_toBuffer e) = Inr (json_norm e)
       \<and> User_toBuffer (json_norm e) = User_toBuffer e
       \<and> Property_fromBuffer (Property_toBuffer e) = Inr (json_norm e)
       \<and> Property_toBuffer (json_norm e) = Property_toBuffer e
       \<and> (JSON_parse b = Some r \<and> ''key'' \<notin> set (map fst r) \<longrightarrow>
             User_fromBuffer b
               = Inr ((''key'', Str (User_makeKey [obj_get r ''name'', obj_get r ''aadhar''])) # r)
             \<and> Property_fromBuffer b
               = Inr ((''key'', Str (Property_makeKey [obj_get r ''propertyId''])) # r))
       \<and> User_fromBuffer [] = Inl SyntaxError
       \<and> Property_fromBuffer [] = Inl SyntaxError
       \<and> (JSON_parse b = None \<longrightarrow>
             User_fromBuffer b = User_fromBuffer [] \<and> Property_fromBuffer b = Property_fromBuffer [])
       \<and> (JSON_parse (getState L (createCompositeKey PropertyList_name [Str propertyId])) = None
            \<longrightarrow> viewProperty c L propertyId
                 = (L, Inl (Error (''There is no registered property with propertyId '' @ propertyId
                                    @ '' exists''))))"
proof -
  have a: "User_toBuffer (json_norm e) = User_toBuffer e"
    "Property_toBuffer (json_norm e) = Property_toBuffer e"
    by (simp_all add: User_toBuffer_def Property_toBuffer_def JSON_stringify_norm)
  have b: "User_fromBuffer [] = Inl SyntaxError" "Property_fromBuffer [] = Inl SyntaxError"
    by (simp_all add: User_fromBuffer_def Property_fromBuffer_def JSON_parse_empty)
  have c: "JSON_parse b = None \<longrightarrow>
             User_fromBuffer b = User_fromBuffer [] \<and> Property_fromBuffer b = Property_fromBuffer []"
    by (simp add: User_fromBuffer_def Property_fromBuffer_def JSON_parse_empty)
  have d: "JSON_parse b = Some r \<and> ''key'' \<notin> set (map fst r) \<longrightarrow>
             User_fromBuffer b
               = Inr ((''key'', Str (User_makeKey [obj_get r ''name'', obj_get r ''aadhar''])) # r)
             \<and> Property_fromBuffer b
               = Inr ((''key'', Str (Property_makeKey [obj_get r ''propertyId''])) # r)"
  proof (intro impI, elim conjE)
    assume r: "JSON_parse b = Some r" and k: "''key'' \<notin> set (map fst r)"
    from JSON_parse_inv [OF r] have dr: "distinct (map fst r)" by simp
    show "User_fromBuffer b
               = Inr ((''key'', Str (User_makeKey [obj_get r ''name'', obj_get r ''aadhar''])) # r)
             \<and> Property_fromBuffer b
               = Inr ((''key'', Str (Property_makeKey [obj_get r ''propertyId''])) # r)"
      by (simp add: User_fromBuffer_def Property_fromBuffer_def r User_new_def Property_new_def
          new_without_key [OF dr k])
  qed
  have v: "JSON_parse (getState L (createCompositeKey PropertyList_name [Str propertyId])) = None
            \<longrightarrow> viewProperty c L propertyId
                 = (L, Inl (Error (''There is no registered property with propertyId '' @ propertyId
                                    @ '' exists'')))"
    using viewProperty_unreadable by blast
  show ?thesis
    by (intro conjI User_fromBuffer_toBuffer [OF assms] Property_fromBuffer_toBuffer [OF assms]
        a b c d v)
qed

theorem codec_round_trip_witness:
  "entity asha
   \<and> JSON_parse (JSON_stringify asha_request) = Some asha_request
   \<and> ''key'' \<notin> set (map fst asha_request)
   \<and> JSON_parse ''{bad'' = None
   \<and> JSON_parse (getState Map.empty (createCompositeKey PropertyList_name [Str ''P1''])) = None
   \<and> User_fromBuffer (User_toBuffer asha) = Inr (json_norm asha)
   \<and> User_toBuffer (json_norm asha) = User_toBuffer asha
   \<and> Property_fromBuffer (Property_toBuffer asha) = Inr (json_norm asha)
   \<and> Property_toBuffer (json_norm asha) = Property_toBuffer asha
   \<and> User_fromBuffer (JSON_stringify asha_request)
       = Inr ((''key'', Str (User_makeKey [obj_get asha_request ''name'', obj_get asha_request ''aadhar'']))
              # asha_request)
   \<and> User_fromBuffer [] = Inl SyntaxError
   \<and> Property_fromBuffer [] = Inl SyntaxError
   \<and> User_fromBuffer ''{bad'' = User_fromBuffer []
   \<and> Property_fromBuffer ''{bad'' = Property_fromBuffer []
   \<and> viewProperty user_ctx Map.empty ''P1''
       = (Map.empty, Inl (Error (''There is no registered property with propertyId '' @ ''P1''
                                  @ '' exists'')))"
proof -
  have h1: "JSON_parse ''{bad'' = None" by code_simp
  have h2: "JSON_parse (JSON_stringify asha_request) = Some asha_request"
    by (rule parse_asha_request)
  have h3: "''key'' \<notin> set (map fst asha_request)" by (simp add: asha_request_def)
  have h4: "JSON_parse (getState Map.empty (createCompositeKey PropertyList_name [Str ''P1''])) = None"
    by (simp add: getState_empty JSON_parse_empty)
  note t = codec_round_trip [OF entity_asha, of "JSON_stringify asha_request" asha_request
             Map.empty "''P1''" user_ctx]
  note t' = codec_round_trip [OF entity_asha, of "''{bad''" asha_request Map.empty "''P1''" user_ctx]
  from t t' h1 h2 h3 h4 entity_asha show ?thesis by simp
qed

text \<open>
  Claim C4 as stated asks \<open>encode (decode buffer) = buffer\<close> for every validly constructed
  buffer, and a "not found" result for an absent buffer that differs from the result for
  corrupt bytes. The record that \<open>requestNewUser\<close> itself writes has no \<open>key\<close> property;
  the constructor adds one, so encoding the decoded record gives a different buffer. An
  absent and a corrupt buffer both raise \<open>SyntaxError\<close> in \<open>fromBuffer\<close>, and
  \<open>viewProperty\<close> answers both with the same error.
\<close>

theorem codec_counterexample:
  "getState ledger_requested (createCompositeKey user_namespace [Str ''asha:1111''])
     = JSON_stringify asha_request
   \<and> User_fromBuffer (JSON_stringify asha_request) = Inr ((''key'', Str ''asha:1111'') # asha_request)
   \<and> User_toBuffer ((''key'', Str ''asha:1111'') # asha_request) \<noteq> JSON_stringify asha_request
   \<and> Property_fromBuffer [] = Inl SyntaxError
   \<and> Property_fromBuffer ''{bad'' = Inl SyntaxError
   \<and> snd (viewProperty user_ctx Map.empty ''P1'')
       = Inl (Error ''There is no registered property with propertyId P1 exists'')
   \<and> snd (viewProperty user_ctx
             (putState Map.empty (createCompositeKey PropertyList_name [Str ''P1'']) ''{bad'') ''P1'')
       = Inl (Error ''There is no registered property with propertyId P1 exists'')"
  by code_simp





text \<open>
  Claim C7. \<open>rechargeAccount\<close> adds exactly the amount of the table to the balance of an
  approved user, and for every transaction identifier outside the table it fails and no
  balance changes.

  The first half holds (\<open>recharge_approved_user\<close>), and an identifier whose lookup is
  falsy fails (\<open>recharge_unknown_id\<close>). The table is an object literal, though, and the
  lookup \<open>VALID_TRANSACTIONS[transactionID]\<close> finds the members of \<open>Object.prototype\<close>
  as well. The identifier \<open>toString\<close> is not in the table; for the approved user with
  balance 0 the call succeeds and stores the text of the number followed by the text of the
  function as the balance.
\<close>

theorem recharge_inherited_name:
  "''toString'' \<notin> set (map fst VALID_TRANSACTIONS)
   \<and> stored_balance ledger_approved ''asha:1111'' = Num 0
   \<and> snd (rechargeAccount user_ctx ledger_approved ''asha'' ''1111'' ''toString'') = Inr ()
   \<and> stored_balance (fst (rechargeAccount user_ctx ledger_approved ''asha'' ''1111'' ''toString''))
        ''asha:1111'' = Str ''0function toString() { [native code] }''"
proof -
  let ?u = "obj_set asha ''upgradCoins'' (Num 0)"
  let ?u' = "obj_set ?u ''upgradCoins'' (Str ''0function toString() { [native code] }'')"
  have a: "''toString'' \<notin> set (map fst VALID_TRANSACTIONS)" by (simp add: VALID_TRANSACTIONS_def)
  have b: "stored_balance ledger_approved ''asha:1111'' = Num 0"
    by (simp add: stored_balance_def stored_user_approved obj_get_set)
  have r: "rechargeAccount user_ctx ledger_approved ''asha'' ''1111'' ''toString''
             = (UserList_updateUser ledger_approved ?u', Inr ())"
    by (simp add: rechargeAccount_def ctx_sample inherited_toString user_key_sample
        stored_user_def [symmetric] stored_user_approved Let_def obj_get_set js_add_def show_int_0)
  have e: "entity ?u'" by (simp add: entity_obj_set entity_asha)
  have k: "to_string (User_getKey ?u') = ''asha:1111''" by (simp add: getKey_obj_set getKey_asha)
  have c: "stored_balance (UserList_updateUser ledger_approved ?u') ''asha:1111''
             = Str ''0function toString() { [native code] }''"
    by (simp add: stored_balance_updateUser [OF e k] obj_get_set)
  show ?thesis using a b c by (simp add: r)
qed







end
